theory Spec2Isabelle
  imports Complex_Main
begin

section \<open>Data model of \<open>aeneas/executetask.py\<close>\<close>

text \<open>
  The module computes the sync map of a task. Times are Python floats; they are modelled
  as \<^typ>\<open>real\<close>, that is with exact arithmetic. Every concrete input used below has
  small integer times, on which float arithmetic is exact as well.

  Python names starting with an underscore lose it (\<open>_align_text\<close> is \<open>align_text\<close>).
  Calls of the logger are left out: \<open>_log\<close> only forwards to the \<open>Logger\<close>.
\<close>

datatype py_error = ValueError | IndexError | OSError | TypeError | AttributeError

text \<open>A row of the wave map is \<open>[real_time, synt_time]\<close>.\<close>

type_synonym wave_map = "(real \<times> real) list"

text \<open>An anchor is \<open>[time, fragment_id, fragment_text]\<close>; the dummy anchors and intervals
  carry \<open>None\<close> in both fragment positions.\<close>

type_synonym anchor = "real \<times> string option \<times> string option"

text \<open>An element of an interval map is \<open>[start, end, fragment_id, fragment_text]\<close>.\<close>

type_synonym interval = "real \<times> real \<times> string option \<times> string option"

definition el0 :: "interval \<Rightarrow> real" where
  "el0 e = fst e"

definition el1 :: "interval \<Rightarrow> real" where
  "el1 e = fst (snd e)"

definition el2 :: "interval \<Rightarrow> string option" where
  "el2 e = fst (snd (snd e))"

definition el3 :: "interval \<Rightarrow> string option" where
  "el3 e = snd (snd (snd e))"

section \<open>\<open>_align_text\<close>\<close>

text \<open>
  \<open>numpy.ndarray.argmin\<close>: the index of the first occurrence of the minimum, and a
  \<open>ValueError\<close> on an empty array. The scan keeps the best value seen and its index and
  replaces them only by a strictly smaller value.
\<close>

fun argmin_scan :: "real list \<Rightarrow> nat \<Rightarrow> real \<Rightarrow> nat \<Rightarrow> nat" where
  "argmin_scan [] i best best_i = best_i"
| "argmin_scan (x # xs) i best best_i =
     (if x < best then argmin_scan xs (Suc i) x i else argmin_scan xs (Suc i) best best_i)"

definition argmin :: "real list \<Rightarrow> py_error + nat" where
  "argmin xs = (case xs of [] \<Rightarrow> Inl ValueError | x # rest \<Rightarrow> Inr (argmin_scan rest 1 x 0))"

text \<open>Indexing an array: \<open>xs[i]\<close> for \<open>i \<ge> 0\<close>, and \<open>xs[-1]\<close>.\<close>

definition getitem :: "'a list \<Rightarrow> nat \<Rightarrow> py_error + 'a" where
  "getitem xs i = (if i < length xs then Inr (xs ! i) else Inl IndexError)"

definition getlast :: "'a list \<Rightarrow> py_error + 'a" where
  "getlast xs = (if xs = [] then Inl IndexError else Inr (last xs))"

text \<open>The first loop of \<open>_align_text\<close>: one real anchor per synt anchor, in order.\<close>

fun project_anchors :: "real list \<Rightarrow> real list \<Rightarrow> anchor list \<Rightarrow> py_error + anchor list" where
  "project_anchors real_times synt_times [] = Inr []"
| "project_anchors real_times synt_times ((time, fragment_id, fragment_text) # rest) =
     (case argmin (map (\<lambda>s. \<bar>s - time\<bar>) synt_times) of
        Inl e \<Rightarrow> Inl e
      | Inr index \<Rightarrow>
          (case getitem real_times index of
             Inl e \<Rightarrow> Inl e
           | Inr real_time \<Rightarrow>
               (case project_anchors real_times synt_times rest of
                  Inl e \<Rightarrow> Inl e
                | Inr real_anchors \<Rightarrow> Inr ((real_time, fragment_id, fragment_text) # real_anchors))))"

text \<open>The second loop: \<open>for i in range(len(real_anchors) - 1)\<close>.\<close>

fun compute_map :: "anchor list \<Rightarrow> interval list" where
  "compute_map (a # b # rest) =
     (fst a, fst b, fst (snd a), snd (snd a)) # compute_map (b # rest)"
| "compute_map [a] = []"
| "compute_map [] = []"

definition align_text_try :: "wave_map \<Rightarrow> anchor list \<Rightarrow> py_error + interval list" where
  "align_text_try wave_map synt_anchors =
     (let real_times = map fst wave_map;
          synt_times = map snd wave_map
      in case project_anchors real_times synt_times synt_anchors of
           Inl e \<Rightarrow> Inl e
         | Inr real_anchors \<Rightarrow>
             (case getlast real_times of
                Inl e \<Rightarrow> Inl e
              | Inr last_time \<Rightarrow> Inr (compute_map (real_anchors @ [(last_time, None, None)]))))"

text \<open>\<open>Some m\<close> is the returned pair \<open>(True, m)\<close>, \<open>None\<close> is \<open>(False, None)\<close>: every
  exception of the body is caught.\<close>

definition align_text :: "wave_map \<Rightarrow> anchor list \<Rightarrow> interval list option" where
  "align_text wave_map synt_anchors =
     (case align_text_try wave_map synt_anchors of Inl e \<Rightarrow> None | Inr m \<Rightarrow> Some m)"

text \<open>The index the claims speak about: the smallest index at which a list is minimal.\<close>

definition first_minimum :: "real list \<Rightarrow> nat \<Rightarrow> bool" where
  "first_minimum ds i \<longleftrightarrow>
     i < length ds \<and> (\<forall>j < length ds. ds ! i \<le> ds ! j) \<and> (\<forall>j < i. ds ! i < ds ! j)"


text \<open>The real time of the row the scan selects for an anchor time \<open>t\<close>.\<close>

definition projection :: "wave_map \<Rightarrow> real \<Rightarrow> real \<Rightarrow> bool" where
  "projection wave_map t r \<longleftrightarrow>
     (\<exists>index. first_minimum (map (\<lambda>row. \<bar>snd row - t\<bar>) wave_map) index
        \<and> r = fst (wave_map ! index))"

section \<open>The task and its configuration\<close>

datatype SyncMapHeadTailFormat = ADD | HIDDEN | STRETCH

datatype AdjustBoundaryAlgorithm =
  AUTO | AFTERCURRENT | BEFORENEXT | OFFSET | PERCENT | RATE | RATEAGGRESSIVE

datatype Language = EN | OtherLanguage string

text \<open>\<open>TextFragment(identifier, language, lines)\<close> (its first field is \<open>fragment_identifier\<close> here) and
  \<open>SyncMapFragment(text_fragment, begin, end)\<close>; a \<open>SyncMap\<close> is the list of the fragments
  appended to it.\<close>

record TextFragment =
  fragment_identifier :: string
  language :: Language
  lines :: "string list"

record SyncMapFragment =
  text_fragment :: TextFragment
  begin_time :: real
  end_time :: real

type_synonym SyncMap = "SyncMapFragment list"

text \<open>The fields of the task configuration that the module reads or writes. A field that is
  not set is \<open>None\<close>.\<close>

record configuration =
  is_audio_file_head_length :: "real option"
  is_audio_file_process_length :: "real option"
  is_audio_file_detect_head_min :: "real option"
  is_audio_file_detect_head_max :: "real option"
  is_audio_file_detect_tail_min :: "real option"
  is_audio_file_detect_tail_max :: "real option"
  adjust_boundary_algorithm :: "AdjustBoundaryAlgorithm option"
  adjust_boundary_aftercurrent_value :: "real option"
  adjust_boundary_beforenext_value :: "real option"
  adjust_boundary_offset_value :: "real option"
  adjust_boundary_percent_value :: "real option"
  adjust_boundary_rate_value :: "real option"
  os_file_head_tail_format :: "SyncMapHeadTailFormat option"

record AudioFile =
  audio_length :: "real option"

record TextFile =
  fragments :: "TextFragment list"

record Task =
  audio_file :: "AudioFile option"
  audio_file_path_absolute :: string
  text_file :: "TextFile option"
  task_configuration :: configuration
  sync_map :: "SyncMap option"

text \<open>The object itself: \<open>self.task\<close> and \<open>self.cleanup_info\<close>, a list of
  \<open>[handler, path]\<close> pairs.\<close>

record ExecuteTask =
  task :: Task
  cleanup_info :: "(int option \<times> string option) list"

text \<open>What the module touches outside the object: the open file descriptors, the files of the
  temporary directory, and how often the voice activity detector has been run.\<close>

record world =
  open_handlers :: "int set"
  files :: "string set"
  vad_runs :: nat

type_synonym mfcc = "real list list"

type_synonym intervals = "(real \<times> real) list"

text \<open>
  The collaborators whose code is in other modules (\<open>globalfunctions\<close>, \<open>globalconstants\<close>,
  \<open>tempfile\<close>, \<open>FFMPEGWrapper\<close>, \<open>AudioFile\<close>, \<open>SD\<close>, \<open>Synthesizer\<close>, \<open>DTWAligner\<close>,
  \<open>VAD\<close>, \<open>AdjustBoundaryAlgorithm\<close>) are parameters of the model. A collaborator that
  the module calls inside a \<open>try\<close> block may raise: its result is then \<open>None\<close> (or \<open>False\<close>
  where it returns nothing). Those called outside of any \<open>try\<close> block (\<open>safe_float\<close>,
  \<open>AdjustBoundaryAlgorithm.adjust\<close>) are taken to return.
\<close>

record collaborators =
  safe_float :: "real option \<Rightarrow> real \<Rightarrow> real"
  SD_MIN_HEAD_LENGTH :: real
  SD_MAX_HEAD_LENGTH :: real
  SD_MIN_TAIL_LENGTH :: real
  SD_MAX_TAIL_LENGTH :: real
  mkstemp :: "world \<Rightarrow> (int \<times> string) option"
  ffmpeg_convert :: "string \<Rightarrow> string \<Rightarrow> bool"
  audio_extract_mfcc :: "string option \<Rightarrow> (mfcc \<times> real) option"
  audio_load_data :: "string option \<Rightarrow> real option"
  sd_detect_head :: "real \<Rightarrow> real \<Rightarrow> real option"
  sd_detect_tail :: "real \<Rightarrow> real \<Rightarrow> real option"
  audio_trim_write :: "real option \<Rightarrow> real option \<Rightarrow> string option \<Rightarrow> bool"
  synt_synthesize :: "TextFile option \<Rightarrow> string \<Rightarrow> anchor list option"
  dtw_computed_map :: "string option \<Rightarrow> string option \<Rightarrow> wave_map option"
  compute_vad :: "mfcc \<Rightarrow> real \<Rightarrow> (intervals \<times> intervals) option"
  adjust :: "AdjustBoundaryAlgorithm \<Rightarrow> interval list \<Rightarrow> intervals \<Rightarrow> intervals
               \<Rightarrow> real option \<Rightarrow> interval list"

section \<open>\<open>_cleanup\<close>\<close>

text \<open>\<open>os.close\<close> and \<open>os.remove\<close> raise on a descriptor that is not open and on a file that
  does not exist.\<close>

definition os_close :: "world \<Rightarrow> int \<Rightarrow> py_error + world" where
  "os_close w handler =
     (if handler \<in> open_handlers w
      then Inr (w\<lparr>open_handlers := open_handlers w - {handler}\<rparr>)
      else Inl OSError)"

definition os_remove :: "world \<Rightarrow> string \<Rightarrow> py_error + world" where
  "os_remove w path =
     (if path \<in> files w then Inr (w\<lparr>files := files w - {path}\<rparr>) else Inl OSError)"

fun cleanup_loop :: "(int option \<times> string option) list \<Rightarrow> world \<Rightarrow> world" where
  "cleanup_loop [] w = w"
| "cleanup_loop ((handler, path) # rest) w =
     (let w1 = (case handler of
                  None \<Rightarrow> w
                | Some h \<Rightarrow> (case os_close w h of Inl e \<Rightarrow> w | Inr w' \<Rightarrow> w'));
          w2 = (case path of
                  None \<Rightarrow> w1
                | Some p \<Rightarrow> (case os_remove w1 p of Inl e \<Rightarrow> w1 | Inr w' \<Rightarrow> w'))
      in cleanup_loop rest w2)"

definition cleanup :: "ExecuteTask \<Rightarrow> world \<Rightarrow> ExecuteTask \<times> world" where
  "cleanup self w = (self\<lparr>cleanup_info := []\<rparr>, cleanup_loop (cleanup_info self) w)"

section \<open>The stages that call a collaborator\<close>

text \<open>\<open>tempfile.mkstemp\<close> opens a new file and returns its descriptor and its path.\<close>

definition os_mkstemp :: "collaborators \<Rightarrow> world \<Rightarrow> py_error + (int \<times> string \<times> world)" where
  "os_mkstemp c w =
     (case mkstemp c w of
        None \<Rightarrow> Inl OSError
      | Some (handler, path) \<Rightarrow>
          Inr (handler, path,
               w\<lparr>open_handlers := insert handler (open_handlers w),
                 files := insert path (files w)\<rparr>))"

definition convert :: "collaborators \<Rightarrow> Task \<Rightarrow> world
    \<Rightarrow> (bool \<times> int option \<times> string option) \<times> world" where
  "convert c t w =
     (case os_mkstemp c w of
        Inl e \<Rightarrow> ((False, None, None), w)
      | Inr (handler, path, w') \<Rightarrow>
          (if ffmpeg_convert c (audio_file_path_absolute t) path
           then ((True, Some handler, Some path), w')
           else ((False, Some handler, Some path), w')))"

text \<open>\<open>Some (mfcc, length)\<close> is the returned \<open>(True, mfcc, length)\<close>, \<open>None\<close> is
  \<open>(False, None, None)\<close>; likewise for the stages below that return \<open>(False, None)\<close>
  when they fail.\<close>

definition extract_mfcc :: "collaborators \<Rightarrow> string option \<Rightarrow> (mfcc \<times> real) option" where
  "extract_mfcc c audio_file_path = audio_extract_mfcc c audio_file_path"

text \<open>The detection of the head inside \<open>_cut_head_tail\<close>: \<open>head = 0.0\<close>, replaced by what
  \<open>SD.detect_head\<close> returns when a bound is configured; \<open>None\<close> when the detector raises.
  Likewise for the tail.\<close>

definition detect_head :: "collaborators \<Rightarrow> configuration \<Rightarrow> real option" where
  "detect_head c configuration =
     (let detect_head_min = is_audio_file_detect_head_min configuration;
          detect_head_max = is_audio_file_detect_head_max configuration
      in if detect_head_min \<noteq> None \<or> detect_head_max \<noteq> None
         then sd_detect_head c (safe_float c detect_head_min (SD_MIN_HEAD_LENGTH c))
                (safe_float c detect_head_max (SD_MAX_HEAD_LENGTH c))
         else Some 0)"

definition detect_tail :: "collaborators \<Rightarrow> configuration \<Rightarrow> real option" where
  "detect_tail c configuration =
     (let detect_tail_min = is_audio_file_detect_tail_min configuration;
          detect_tail_max = is_audio_file_detect_tail_max configuration
      in if detect_tail_min \<noteq> None \<or> detect_tail_max \<noteq> None
         then sd_detect_tail c (safe_float c detect_tail_min (SD_MIN_TAIL_LENGTH c))
                (safe_float c detect_tail_max (SD_MAX_TAIL_LENGTH c))
         else Some 0)"

text \<open>The configuration values are numbers here, so that \<open>float(head_length)\<close> and
  \<open>float(process_length)\<close> change nothing.\<close>

definition cut_head_tail :: "collaborators \<Rightarrow> Task \<Rightarrow> string option \<Rightarrow> bool \<times> Task" where
  "cut_head_tail c t audio_file_path =
     (let configuration = task_configuration t;
          head_length = is_audio_file_head_length configuration;
          process_length = is_audio_file_process_length configuration;
          detect_head_min = is_audio_file_detect_head_min configuration;
          detect_head_max = is_audio_file_detect_head_max configuration;
          detect_tail_min = is_audio_file_detect_tail_min configuration;
          detect_tail_max = is_audio_file_detect_tail_max configuration;
          explicit = (head_length \<noteq> None \<or> process_length \<noteq> None);
          detect = (detect_head_min \<noteq> None \<or> detect_head_max \<noteq> None
                    \<or> detect_tail_min \<noteq> None \<or> detect_tail_max \<noteq> None)
      in if explicit \<or> detect then
           (case audio_load_data c audio_file_path of
              None \<Rightarrow> (False, t)
            | Some loaded_length \<Rightarrow>
                if explicit
                then (audio_trim_write c head_length process_length audio_file_path, t)
                else
                  (case detect_head c configuration of
                     None \<Rightarrow> (False, t)
                   | Some head \<Rightarrow>
                       (case detect_tail c configuration of
                          None \<Rightarrow> (False, t)
                        | Some tail \<Rightarrow>
                            (let head_length = max 0 head;
                                 process_length = max 0 (loaded_length - tail - head);
                                 t' = t\<lparr>task_configuration := configuration
                                        \<lparr>is_audio_file_head_length := Some head_length,
                                         is_audio_file_process_length := Some process_length\<rparr>\<rparr>
                             in (audio_trim_write c (Some head_length) (Some process_length)
                                   audio_file_path, t')))))
         else (True, t))"

definition synthesize :: "collaborators \<Rightarrow> Task \<Rightarrow> world
    \<Rightarrow> (bool \<times> int option \<times> string option \<times> anchor list option) \<times> world" where
  "synthesize c t w =
     (case os_mkstemp c w of
        Inl e \<Rightarrow> ((False, None, None, None), w)
      | Inr (handler, path, w') \<Rightarrow>
          (case synt_synthesize c (text_file t) path of
             None \<Rightarrow> ((False, Some handler, Some path, None), w')
           | Some anchors \<Rightarrow> ((True, Some handler, Some path, Some anchors), w')))"

definition align_waves :: "collaborators \<Rightarrow> string option \<Rightarrow> string option \<Rightarrow> wave_map option" where
  "align_waves c real_path synt_path = dtw_computed_map c real_path synt_path"

section \<open>\<open>_translate_text_map\<close>\<close>

text \<open>One pass of the loop: the list built so far and the variable \<open>end\<close>, written
  \<open>end_el\<close>.\<close>

definition translate_step :: "real \<Rightarrow> interval list \<times> real \<Rightarrow> interval \<Rightarrow> interval list \<times> real" where
  "translate_step head acc element =
     (case element of (start, end_el, fragment_id, fragment_text) \<Rightarrow>
        (fst acc @ [(start + head, end_el + head, fragment_id, fragment_text)],
         end_el + head))"

definition translate_text_map :: "collaborators \<Rightarrow> configuration \<Rightarrow> interval list \<Rightarrow> real
    \<Rightarrow> interval list option" where
  "translate_text_map c configuration text_map real_full_wave_length =
     (if length text_map = 0 then None
      else
        (let head = safe_float c (is_audio_file_head_length configuration) 0;
             (translated, end_el) =
                foldl (translate_step head) ([(0, head, None, None)], 0) text_map
         in Some (translated @ [(end_el, real_full_wave_length, None, None)])))"

section \<open>\<open>_adjust_boundaries\<close>\<close>

definition adjust_boundaries :: "collaborators \<Rightarrow> configuration \<Rightarrow> interval list \<Rightarrow> mfcc \<Rightarrow> real
    \<Rightarrow> world \<Rightarrow> interval list option \<times> world" where
  "adjust_boundaries c configuration text_map real_wave_full_mfcc real_wave_length w =
     (case adjust_boundary_algorithm configuration of
        None \<Rightarrow> (Some text_map, w)
      | Some algo \<Rightarrow>
          if algo = AUTO then (Some text_map, w)
          else
            (let value =
                   (if algo = AFTERCURRENT then adjust_boundary_aftercurrent_value configuration
                    else if algo = BEFORENEXT then adjust_boundary_beforenext_value configuration
                    else if algo = OFFSET then adjust_boundary_offset_value configuration
                    else if algo = PERCENT then adjust_boundary_percent_value configuration
                    else if algo = RATE then adjust_boundary_rate_value configuration
                    else if algo = RATEAGGRESSIVE then adjust_boundary_rate_value configuration
                    else None);
                 w' = w\<lparr>vad_runs := Suc (vad_runs w)\<rparr>
             in case compute_vad c real_wave_full_mfcc real_wave_length of
                  None \<Rightarrow> (None, w')
                | Some (speech, nonspeech) \<Rightarrow>
                    (Some (adjust c algo text_map speech nonspeech value), w')))"

section \<open>\<open>_create_syncmap\<close>\<close>

text \<open>\<open>adjusted_map[1][0] = head[0]\<close> and \<open>adjusted_map[-2][1] = tail[1]\<close>: the elements of
  the map are lists of their own, so that an assignment changes one element only.\<close>

definition stretch :: "interval list \<Rightarrow> interval \<Rightarrow> interval \<Rightarrow> py_error + interval list" where
  "stretch adjusted_map head tail =
     (if length adjusted_map < 2 then Inl IndexError
      else
        (let am1 = adjusted_map[1 := (el0 head, snd (adjusted_map ! 1))];
             k = length am1 - 2;
             e = am1 ! k
         in Inr (am1[k := (fst e, el1 tail, snd (snd e))])))"

text \<open>The loop over the text fragments, \<open>i\<close> counting from 1.\<close>

fun add_fragments :: "TextFragment list \<Rightarrow> interval list \<Rightarrow> nat \<Rightarrow> SyncMap \<Rightarrow> py_error + SyncMap" where
  "add_fragments [] adjusted_map i sm = Inr sm"
| "add_fragments (fragment # rest) adjusted_map i sm =
     (case getitem adjusted_map i of
        Inl e \<Rightarrow> Inl e
      | Inr element \<Rightarrow>
          add_fragments rest adjusted_map (Suc i)
            (sm @ [\<lparr>text_fragment = fragment, begin_time = el0 element,
                          end_time = el1 element\<rparr>]))"

definition create_syncmap_try :: "Task \<Rightarrow> TextFile \<Rightarrow> interval list \<Rightarrow> py_error + SyncMap" where
  "create_syncmap_try t tf adjusted_map =
     (case getitem adjusted_map 0 of
        Inl e \<Rightarrow> Inl e
      | Inr head \<Rightarrow>
          (case getlast adjusted_map of
             Inl e \<Rightarrow> Inl e
           | Inr tail \<Rightarrow>
               (let lang = (if length (fragments tf) > 0 then language (fragments tf ! 0) else EN);
                    head_tail_format = os_file_head_tail_format (task_configuration t);
                    sync_map0 =
                      (if head_tail_format = Some ADD
                       then [\<lparr>text_fragment = \<lparr>fragment_identifier = ''HEAD'', language = lang, lines = ['''']\<rparr>,
                              begin_time = el0 head, end_time = el1 head\<rparr>]
                       else [])
                in case (if head_tail_format = Some STRETCH then stretch adjusted_map head tail
                         else Inr adjusted_map) of
                     Inl e \<Rightarrow> Inl e
                   | Inr adjusted_map' \<Rightarrow>
                       (case add_fragments (fragments tf) adjusted_map' 1 sync_map0 of
                          Inl e \<Rightarrow> Inl e
                        | Inr sync_map1 \<Rightarrow>
                            Inr (if head_tail_format = Some ADD
                                 then sync_map1 @
                                   [\<lparr>text_fragment =
                                       \<lparr>fragment_identifier = ''TAIL'', language = lang, lines = ['''']\<rparr>,
                                     begin_time = el0 tail, end_time = el1 tail\<rparr>]
                                 else sync_map1)))))"

text \<open>The length test reads \<open>self.task.text_file.fragments\<close> before the \<open>try\<close> block.\<close>

definition create_syncmap :: "Task \<Rightarrow> interval list \<Rightarrow> py_error + (bool \<times> Task)" where
  "create_syncmap t adjusted_map =
     (case text_file t of
        None \<Rightarrow> Inl AttributeError
      | Some tf \<Rightarrow>
          if length adjusted_map \<noteq> length (fragments tf) + 2 then Inr (False, t)
          else
            (case create_syncmap_try t tf adjusted_map of
               Inl e \<Rightarrow> Inr (False, t)
             | Inr sync_map' \<Rightarrow> Inr (True, t\<lparr>sync_map := Some sync_map'\<rparr>)))"

section \<open>\<open>execute\<close>\<close>

definition execute :: "collaborators \<Rightarrow> ExecuteTask \<Rightarrow> world
    \<Rightarrow> py_error + (bool \<times> ExecuteTask \<times> world)" where
  "execute c self w =
     (case audio_file (task self) of
        None \<Rightarrow> Inr (False, self, w)
      | Some af \<Rightarrow>
     (case audio_length af of
        None \<Rightarrow> Inr (False, self, w)
      | Some len \<Rightarrow>
     if len \<le> 0 then Inr (False, self, w) else
     (case text_file (task self) of
        None \<Rightarrow> Inr (False, self, w)
      | Some tf \<Rightarrow>
     if length (fragments tf) = 0 then Inr (False, self, w) else
     (let self0 = self\<lparr>cleanup_info := []\<rparr> in
      case convert c (task self0) w of ((result0, real_full_handler, real_full_path), w0) \<Rightarrow>
     (let self1 = self0\<lparr>cleanup_info := cleanup_info self0 @ [(real_full_handler, real_full_path)]\<rparr> in
      if \<not> result0 then Inr (False, cleanup self1 w0) else
     (case extract_mfcc c real_full_path of
        None \<Rightarrow> Inr (False, cleanup self1 w0)
      | Some (real_full_wave_full_mfcc, real_full_wave_length) \<Rightarrow>
     (case cut_head_tail c (task self1) real_full_path of (result2, t2) \<Rightarrow>
     (let self2 = self1\<lparr>task := t2\<rparr>;
          real_trimmed_path = real_full_path in
      if \<not> result2 then Inr (False, cleanup self2 w0) else
     (case synthesize c (task self2) w0 of ((result3, synt_handler, synt_path, synt_anchors), w3) \<Rightarrow>
     (let self3 = self2\<lparr>cleanup_info := cleanup_info self2 @ [(synt_handler, synt_path)]\<rparr> in
      if \<not> result3 then Inr (False, cleanup self3 w3) else
     (case align_waves c real_trimmed_path synt_path of
        None \<Rightarrow> Inr (False, cleanup self3 w3)
      | Some wave_map \<Rightarrow>
     (case synt_anchors of
        None \<Rightarrow> Inl TypeError
      | Some anchors \<Rightarrow>
     (case align_text wave_map anchors of
        None \<Rightarrow> Inr (False, cleanup self3 w3)
      | Some text_map \<Rightarrow>
     (case translate_text_map c (task_configuration (task self3)) text_map real_full_wave_length of
        None \<Rightarrow> Inr (False, cleanup self3 w3)
      | Some translated_text_map \<Rightarrow>
     (case adjust_boundaries c (task_configuration (task self3)) translated_text_map
             real_full_wave_full_mfcc real_full_wave_length w3 of
        (None, w7) \<Rightarrow> Inr (False, cleanup self3 w7)
      | (Some adjusted_map, w7) \<Rightarrow>
     (case create_syncmap (task self3) adjusted_map of
        Inl e \<Rightarrow> Inl e
      | Inr (result8, t8) \<Rightarrow>
     (let self8 = self3\<lparr>task := t8\<rparr> in
      if \<not> result8 then Inr (False, cleanup self8 w7)
      else Inr (True, cleanup self8 w7))))))))))))))))))"

section \<open>Predicates of the claims\<close>




text \<open>An interval moved by \<open>h\<close> seconds.\<close>

definition shifted :: "real \<Rightarrow> interval \<Rightarrow> interval" where
  "shifted h e = (el0 e + h, el1 e + h, el2 e, el3 e)"

text \<open>The sync map fragment of a text fragment and an interval, and the two fragments that
  stand for the head and the tail.\<close>

definition entry :: "TextFragment \<Rightarrow> interval \<Rightarrow> SyncMapFragment" where
  "entry f e = \<lparr>text_fragment = f, begin_time = el0 e, end_time = el1 e\<rparr>"

definition head_fragment :: "Language \<Rightarrow> TextFragment" where
  "head_fragment lang = \<lparr>fragment_identifier = ''HEAD'', language = lang, lines = ['''']\<rparr>"

definition tail_fragment :: "Language \<Rightarrow> TextFragment" where
  "tail_fragment lang = \<lparr>fragment_identifier = ''TAIL'', language = lang, lines = ['''']\<rparr>"

section \<open>A small task\<close>

text \<open>
  Three fragments read in a recording of three seconds, as in the third end-to-end scenario
  of the specification: the synthesizer puts the fragments at 0, 1 and 2 seconds, the
  aligner maps each synt second to the same real second. \<open>safe_float\<close> returns the number
  it is given and the default on \<open>None\<close>.
\<close>

definition example_configuration :: configuration where
  "example_configuration =
     \<lparr>is_audio_file_head_length = None,
      is_audio_file_process_length = None,
      is_audio_file_detect_head_min = None,
      is_audio_file_detect_head_max = None,
      is_audio_file_detect_tail_min = None,
      is_audio_file_detect_tail_max = None,
      adjust_boundary_algorithm = None,
      adjust_boundary_aftercurrent_value = None,
      adjust_boundary_beforenext_value = None,
      adjust_boundary_offset_value = None,
      adjust_boundary_percent_value = None,
      adjust_boundary_rate_value = None,
      os_file_head_tail_format = None\<rparr>"

definition example_fragments :: "TextFragment list" where
  "example_fragments =
     [\<lparr>fragment_identifier = ''f1'', language = EN, lines = [''aa'']\<rparr>,
      \<lparr>fragment_identifier = ''f2'', language = EN, lines = [''bb'']\<rparr>,
      \<lparr>fragment_identifier = ''f3'', language = EN, lines = [''cc'']\<rparr>]"

definition example_task :: Task where
  "example_task =
     \<lparr>audio_file = Some \<lparr>audio_length = Some 3\<rparr>,
      audio_file_path_absolute = ''/audio.mp3'',
      text_file = Some \<lparr>fragments = example_fragments\<rparr>,
      task_configuration = example_configuration,
      sync_map = None\<rparr>"

definition example_anchors :: "anchor list" where
  "example_anchors =
     [(0, Some ''f1'', Some ''aa''), (1, Some ''f2'', Some ''bb''), (2, Some ''f3'', Some ''cc'')]"

definition example_wave_map :: wave_map where
  "example_wave_map = [(0, 0), (1, 1), (2, 2), (3, 3)]"

definition example_collaborators :: collaborators where
  "example_collaborators =
     \<lparr>safe_float = (\<lambda>x d. case x of None \<Rightarrow> d | Some v \<Rightarrow> v),
      SD_MIN_HEAD_LENGTH = 0,
      SD_MAX_HEAD_LENGTH = 10,
      SD_MIN_TAIL_LENGTH = 0,
      SD_MAX_TAIL_LENGTH = 10,
      mkstemp = (\<lambda>w. if 3 \<in> open_handlers w then Some (4, ''/tmp/b.wav'')
                       else Some (3, ''/tmp/a.wav'')),
      ffmpeg_convert = (\<lambda>input output. True),
      audio_extract_mfcc = (\<lambda>path. Some ([[0]], 3)),
      audio_load_data = (\<lambda>path. Some 3),
      sd_detect_head = (\<lambda>lo hi. Some 1),
      sd_detect_tail = (\<lambda>lo hi. Some 1),
      audio_trim_write = (\<lambda>head_length process_length path. True),
      synt_synthesize = (\<lambda>tf path. Some example_anchors),
      dtw_computed_map = (\<lambda>real_path synt_path. Some example_wave_map),
      compute_vad = (\<lambda>m l. Some ([], [])),
      adjust = (\<lambda>algo text_map speech nonspeech v. text_map)\<rparr>"

definition example_world :: world where
  "example_world = \<lparr>open_handlers = {0, 1, 2}, files = {''/tmp/other''}, vad_runs = 0\<rparr>"

section \<open>The first minimum found by \<open>argmin\<close>\<close>

lemma first_minimum_snoc_new:
  assumes "first_minimum pre bi" and "x < pre ! bi"
  shows "first_minimum (pre @ [x]) (length pre)"
  using assms unfolding first_minimum_def
  by (auto simp: nth_append less_Suc_eq)

lemma first_minimum_snoc_keep:
  assumes "first_minimum pre bi" and "\<not> x < pre ! bi"
  shows "first_minimum (pre @ [x]) bi"
  using assms unfolding first_minimum_def
  by (auto simp: nth_append less_Suc_eq)

lemma argmin_scan_first_minimum:
  "first_minimum pre bi \<Longrightarrow> best = pre ! bi \<Longrightarrow> i = length pre \<Longrightarrow>
   first_minimum (pre @ xs) (argmin_scan xs i best bi)"
proof (induction xs arbitrary: pre bi best i)
  case Nil
  then show ?case by simp
next
  case (Cons x xs)
  show ?case
  proof (cases "x < best")
    case True
    with Cons.prems have fm: "first_minimum (pre @ [x]) (length pre)"
      using first_minimum_snoc_new by blast
    have "first_minimum ((pre @ [x]) @ xs) (argmin_scan xs (Suc i) x (length pre))"
      by (rule Cons.IH[OF fm]) (simp_all add: Cons.prems)
    with True Cons.prems show ?thesis by simp
  next
    case False
    with Cons.prems have fm: "first_minimum (pre @ [x]) bi"
      using first_minimum_snoc_keep by blast
    have "first_minimum ((pre @ [x]) @ xs) (argmin_scan xs (Suc i) best bi)"
      by (rule Cons.IH[OF fm]) (use Cons.prems fm in \<open>simp_all add: first_minimum_def nth_append\<close>)
    with False Cons.prems show ?thesis by simp
  qed
qed

lemma argmin_first_minimum:
  assumes "xs \<noteq> []"
  shows "\<exists>i. argmin xs = Inr i \<and> first_minimum xs i"
proof -
  from assms obtain x rest where xs: "xs = x # rest" by (cases xs) auto
  have "first_minimum [x] 0" by (simp add: first_minimum_def)
  from argmin_scan_first_minimum[OF this, of x 1 rest]
  show ?thesis by (simp add: xs argmin_def)
qed


lemma project_anchors_ok:
  assumes "wave_map \<noteq> []"
  shows "\<exists>ras. project_anchors (map fst wave_map) (map snd wave_map) anchors = Inr ras
           \<and> length ras = length anchors
           \<and> (\<forall>k < length anchors.
                 projection wave_map (fst (anchors ! k)) (fst (ras ! k))
                 \<and> snd (ras ! k) = snd (anchors ! k))"
proof (induction anchors)
  case Nil
  show ?case by simp
next
  case (Cons a anchors)
  obtain time fragment_id fragment_text where a: "a = (time, fragment_id, fragment_text)"
    by (cases a) auto
  let ?ds = "map (\<lambda>s. \<bar>s - time\<bar>) (map snd wave_map)"
  from assms have "?ds \<noteq> []" by simp
  from argmin_first_minimum[OF this] obtain index
    where am: "argmin ?ds = Inr index" and fm: "first_minimum ?ds index" by blast
  from fm have lt: "index < length wave_map" by (simp add: first_minimum_def)
  from Cons.IH obtain ras where
    ras: "project_anchors (map fst wave_map) (map snd wave_map) anchors = Inr ras"
    and len: "length ras = length anchors"
    and nth: "\<forall>k < length anchors.
                 projection wave_map (fst (anchors ! k)) (fst (ras ! k))
                 \<and> snd (ras ! k) = snd (anchors ! k)" by blast
  let ?r = "(fst (wave_map ! index), fragment_id, fragment_text)"
  have res: "project_anchors (map fst wave_map) (map snd wave_map) (a # anchors) = Inr (?r # ras)"
    using am lt ras by (simp add: a getitem_def)
  have p0: "projection wave_map time (fst (wave_map ! index))"
    unfolding projection_def using fm by (auto simp: comp_def)
  have "\<forall>k < length (a # anchors).
          projection wave_map (fst ((a # anchors) ! k)) (fst ((?r # ras) ! k))
          \<and> snd ((?r # ras) ! k) = snd ((a # anchors) ! k)"
  proof (intro allI impI)
    fix k assume "k < length (a # anchors)"
    then show "projection wave_map (fst ((a # anchors) ! k)) (fst ((?r # ras) ! k))
          \<and> snd ((?r # ras) ! k) = snd ((a # anchors) ! k)"
      using p0 nth by (cases k) (simp_all add: a)
  qed
  with res len show ?case by auto
qed

lemma length_compute_map: "length (compute_map xs) = length xs - 1"
  by (induction xs rule: compute_map.induct) simp_all

lemma compute_map_nth:
  "Suc k < length xs \<Longrightarrow>
   compute_map xs ! k = (fst (xs ! k), fst (xs ! Suc k), fst (snd (xs ! k)), snd (snd (xs ! k)))"
proof (induction xs arbitrary: k rule: compute_map.induct)
  case (1 a b rest)
  then show ?case by (cases k) simp_all
qed simp_all

lemma align_text_ok:
  assumes "wave_map \<noteq> []"
  shows "\<exists>ras. project_anchors (map fst wave_map) (map snd wave_map) anchors = Inr ras
           \<and> length ras = length anchors
           \<and> (\<forall>k < length anchors.
                 projection wave_map (fst (anchors ! k)) (fst (ras ! k))
                 \<and> snd (ras ! k) = snd (anchors ! k))
           \<and> align_text wave_map anchors
               = Some (compute_map (ras @ [(fst (last wave_map), None, None)]))"
proof -
  from project_anchors_ok[OF assms, of anchors] obtain ras where
    ras: "project_anchors (map fst wave_map) (map snd wave_map) anchors = Inr ras"
    and rest: "length ras = length anchors"
      "\<forall>k < length anchors.
                 projection wave_map (fst (anchors ! k)) (fst (ras ! k))
                 \<and> snd (ras ! k) = snd (anchors ! k)" by blast
  have "align_text wave_map anchors
               = Some (compute_map (ras @ [(fst (last wave_map), None, None)]))"
    using assms ras by (simp add: align_text_def align_text_try_def getlast_def last_map)
  with ras rest show ?thesis by blast
qed

section \<open>Anchor projection\<close>

text \<open>
  Claim C2, for a wave map with at least one row. \<open>_align_text\<close> returns an interval list
  with one interval per anchor. Interval \<open>k\<close> starts at the real time of the row whose synt
  time is nearest to the time of anchor \<open>k\<close>, the first such row when several are equally
  near; it ends where interval \<open>k + 1\<close> starts, and the last one ends at the last real time
  of the wave map; it carries the fragment id and text of anchor \<open>k\<close>.
\<close>

theorem align_text_projects:
  assumes "wave_map \<noteq> []"
  shows "\<exists>m. align_text wave_map synt_anchors = Some m
           \<and> length m = length synt_anchors
           \<and> (\<forall>k < length synt_anchors.
                 projection wave_map (fst (synt_anchors ! k)) (el0 (m ! k))
                 \<and> el1 (m ! k) = (if Suc k < length synt_anchors then el0 (m ! Suc k)
                                  else fst (last wave_map))
                 \<and> el2 (m ! k) = fst (snd (synt_anchors ! k))
                 \<and> el3 (m ! k) = snd (snd (synt_anchors ! k)))"
proof -
  from align_text_ok[OF assms, of synt_anchors] obtain ras where
    len: "length ras = length synt_anchors"
    and nth: "\<forall>k < length synt_anchors.
                 projection wave_map (fst (synt_anchors ! k)) (fst (ras ! k))
                 \<and> snd (ras ! k) = snd (synt_anchors ! k)"
    and res: "align_text wave_map synt_anchors
               = Some (compute_map (ras @ [(fst (last wave_map), None, None)]))" by blast
  let ?xs = "ras @ [(fst (last wave_map), None, None)]"
  let ?m = "compute_map ?xs"
  have lm: "length ?m = length synt_anchors" by (simp add: length_compute_map len)
  have "\<forall>k < length synt_anchors.
                 projection wave_map (fst (synt_anchors ! k)) (el0 (?m ! k))
                 \<and> el1 (?m ! k) = (if Suc k < length synt_anchors then el0 (?m ! Suc k)
                                  else fst (last wave_map))
                 \<and> el2 (?m ! k) = fst (snd (synt_anchors ! k))
                 \<and> el3 (?m ! k) = snd (snd (synt_anchors ! k))"
  proof (intro allI impI)
    fix k assume k: "k < length synt_anchors"
    then have sk: "Suc k < length ?xs" by (simp add: len)
    have mk: "?m ! k = (fst (?xs ! k), fst (?xs ! Suc k), fst (snd (?xs ! k)), snd (snd (?xs ! k)))"
      by (rule compute_map_nth[OF sk])
    have xk: "?xs ! k = ras ! k" using k len by (simp add: nth_append)
    show "projection wave_map (fst (synt_anchors ! k)) (el0 (?m ! k))
                 \<and> el1 (?m ! k) = (if Suc k < length synt_anchors then el0 (?m ! Suc k)
                                  else fst (last wave_map))
                 \<and> el2 (?m ! k) = fst (snd (synt_anchors ! k))
                 \<and> el3 (?m ! k) = snd (snd (synt_anchors ! k))"
    proof (cases "Suc k < length synt_anchors")
      case True
      then have "Suc (Suc k) < length ?xs" by (simp add: len)
      from compute_map_nth[OF this] have "el0 (?m ! Suc k) = fst (?xs ! Suc k)"
        by (simp add: el0_def)
      then show ?thesis using True k nth mk xk
        by (simp add: el0_def el1_def el2_def el3_def)
    next
      case False
      with k have "Suc k = length ras" using len by simp
      then have "?xs ! Suc k = (fst (last wave_map), None, None)" by (simp add: nth_append)
      then show ?thesis using False k nth mk xk
        by (simp add: el0_def el1_def el2_def el3_def)
    qed
  qed
  with res lm show ?thesis by blast
qed

text \<open>The theorem at a wave map of three rows and two anchors; the second anchor is equally
  near to rows 1 and 2 and takes row 1.\<close>

theorem align_text_projects_witness:
  "[(1, 0), (2, 1), (5, 2)] \<noteq> ([] :: wave_map)
   \<and> (\<exists>m. align_text [(1, 0), (2, 1), (5, 2)]
             [(0, Some ''f1'', Some ''a''), (3 / 2, Some ''f2'', Some ''b'')] = Some m
         \<and> m = [(1, 2, Some ''f1'', Some ''a''), (2, 5, Some ''f2'', Some ''b'')])"
  using align_text_projects [of "[(1, 0), (2, 1), (5, 2)]"
      "[(0, Some ''f1'', Some ''a''), (3 / 2, Some ''f2'', Some ''b'')]"]
  by (simp add: align_text_def align_text_try_def argmin_def getitem_def getlast_def)

text \<open>
  Claim C2 as stated speaks of every wave map. On the empty one \<open>argmin\<close> raises, the
  exception is caught and \<open>_align_text\<close> returns \<open>(False, None)\<close>: no interval list.
\<close>

theorem align_text_empty_wave_map:
  "\<not> (\<exists>m. align_text [] [(0, Some ''f1'', Some ''a'')] = Some m \<and> length m = 1)"
  by (simp add: align_text_def align_text_try_def argmin_def)

section \<open>Head and tail translation\<close>

lemma translate_step_shifted:
  "translate_step h (acc, e0) e = (acc @ [shifted h e], el1 e + h)"
  by (cases e) (simp add: translate_step_def shifted_def el0_def el1_def el2_def el3_def)

lemma foldl_translate_step:
  "foldl (translate_step h) (acc, e0) xs =
     (acc @ map (shifted h) xs, if xs = [] then e0 else el1 (last xs) + h)"
  by (induction xs arbitrary: acc e0) (simp_all add: translate_step_shifted)

lemma translate_text_map_Cons:
  "translate_text_map c cfg (e # es) L =
     Some ((0, safe_float c (is_audio_file_head_length cfg) 0, None, None)
           # map (shifted (safe_float c (is_audio_file_head_length cfg) 0)) (e # es)
           @ [(el1 (last (e # es)) + safe_float c (is_audio_file_head_length cfg) 0, L, None, None)])"
  unfolding translate_text_map_def Let_def foldl_translate_step
  by simp

lemma translate_text_map_ends:
  assumes "translate_text_map c cfg text_map L = Some am"
  shows "el0 (am ! 0) = 0 \<and> el1 (last am) = L"
proof (cases text_map)
  case Nil
  with assms show ?thesis by (simp add: translate_text_map_def)
next
  case (Cons e es)
  with assms show ?thesis
    unfolding Cons translate_text_map_Cons by (auto simp: el0_def el1_def)
qed

text \<open>
  Claim C4. On an empty interval map \<open>_translate_text_map\<close> fails. On a non-empty one, with
  \<open>h\<close> the head length of the configuration as \<open>safe_float\<close> reads it and \<open>L\<close> the length
  of the full audio, it returns the interval \<open>[0, h]\<close> without fragment, then every interval
  of the map with its start and its end moved by \<open>h\<close>, then the interval from the moved end
  of the last interval to \<open>L\<close>, again without fragment.
\<close>

theorem translate_text_map_shifts:
  "translate_text_map c cfg [] L = None
   \<and> translate_text_map c cfg (e # es) L =
       (let h = safe_float c (is_audio_file_head_length cfg) 0
        in Some ([(0, h, None, None)] @ map (shifted h) (e # es)
                 @ [(el1 (last (e # es)) + h, L, None, None)]))"
  by (simp add: translate_text_map_Cons Let_def) (simp add: translate_text_map_def)

section \<open>Boundary adjustment\<close>

lemma adjust_boundaries_runs_vad:
  assumes "adjust_boundary_algorithm cfg = Some algo" and "algo \<noteq> AUTO"
  shows "vad_runs (snd (adjust_boundaries c cfg text_map real_wave_full_mfcc real_wave_length w))
           = Suc (vad_runs w)"
  using assms by (auto simp: adjust_boundaries_def Let_def split: option.splits)

text \<open>
  Claim C8. When no adjust boundary algorithm is configured, or the algorithm is \<open>AUTO\<close>,
  \<open>_adjust_boundaries\<close> succeeds with the interval map it was given, and the world is
  unchanged: the count of VAD runs is the same. This holds whatever the VAD would have
  answered.
\<close>

theorem adjust_boundaries_auto_identity:
  assumes "adjust_boundary_algorithm cfg = None \<or> adjust_boundary_algorithm cfg = Some AUTO"
  shows "adjust_boundaries c cfg text_map real_wave_full_mfcc real_wave_length w = (Some text_map, w)"
  using assms by (auto simp: adjust_boundaries_def)

text \<open>The theorem with algorithm \<open>AUTO\<close> and a VAD that would raise.\<close>

theorem adjust_boundaries_auto_identity_witness:
  "(adjust_boundary_algorithm (example_configuration\<lparr>adjust_boundary_algorithm := Some AUTO\<rparr>) = None
      \<or> adjust_boundary_algorithm (example_configuration\<lparr>adjust_boundary_algorithm := Some AUTO\<rparr>)
          = Some AUTO)
   \<and> adjust_boundaries (example_collaborators\<lparr>compute_vad := \<lambda>m l. None\<rparr>)
         (example_configuration\<lparr>adjust_boundary_algorithm := Some AUTO\<rparr>)
         [(0, 1, None, None), (1, 3, Some ''f1'', Some ''aa''), (3, 3, None, None)] [[0]] 3
         example_world
       = (Some [(0, 1, None, None), (1, 3, Some ''f1'', Some ''aa''), (3, 3, None, None)],
          example_world)"
  using adjust_boundaries_auto_identity
    [of "example_configuration\<lparr>adjust_boundary_algorithm := Some AUTO\<rparr>"
        "example_collaborators\<lparr>compute_vad := \<lambda>m l. None\<rparr>"
        "[(0, 1, None, None), (1, 3, Some ''f1'', Some ''aa''), (3, 3, None, None)]" "[[0]]" 3
        example_world]
  by simp

section \<open>Sync map creation\<close>

lemma add_fragments_zip:
  "i + length fs \<le> length am \<Longrightarrow>
   add_fragments fs am i sm = Inr (sm @ map2 entry fs (drop i am))"
proof (induction fs arbitrary: i sm)
  case Nil
  then show ?case by simp
next
  case (Cons f fs)
  then have i: "i < length am" by simp
  then have d: "drop i am = am ! i # drop (Suc i) am" by (simp add: Cons_nth_drop_Suc)
  from Cons.prems have "Suc i + length fs \<le> length am" by simp
  from Cons.IH[OF this] show ?case using i
    by (simp add: getitem_def d entry_def)
qed


lemma length_map2_entry:
  "Suc (length fs) \<le> length am \<Longrightarrow> length (map2 entry fs (drop 1 am)) = length fs"
  by simp

lemma stretch_ok:
  assumes "2 \<le> length am"
  shows "\<exists>am'. stretch am head tail = Inr am' \<and> length am' = length am
           \<and> (\<forall>j. 1 \<le> j \<and> j \<le> length am - 2 \<longrightarrow>
                 el0 (am' ! j) = (if j = 1 then el0 head else el0 (am ! j))
                 \<and> el1 (am' ! j) = (if j = length am - 2 then el1 tail else el1 (am ! j))
                 \<and> el2 (am' ! j) = el2 (am ! j) \<and> el3 (am' ! j) = el3 (am ! j))"
  using assms
  by (auto simp: stretch_def Let_def el0_def el1_def el2_def el3_def nth_list_update)

lemma create_syncmap_try_other:
  assumes "length am = length (fragments tf) + 2"
    and "os_file_head_tail_format (task_configuration t) \<noteq> Some ADD"
    and "os_file_head_tail_format (task_configuration t) \<noteq> Some STRETCH"
  shows "create_syncmap_try t tf am = Inr (map2 entry (fragments tf) (drop 1 am))"
proof -
  have "Suc 0 + length (fragments tf) \<le> length am" using assms(1) by simp
  note z = add_fragments_zip[OF this, of "[]"]
  have ne: "am \<noteq> []" using assms(1) by auto
  show ?thesis
    using assms ne z by (simp add: create_syncmap_try_def getitem_def getlast_def Let_def)
qed

lemma create_syncmap_try_add:
  assumes "length am = length (fragments tf) + 2"
    and "os_file_head_tail_format (task_configuration t) = Some ADD"
  shows "\<exists>lang. create_syncmap_try t tf am =
           Inr ([entry (head_fragment lang) (am ! 0)] @ map2 entry (fragments tf) (drop 1 am)
                @ [entry (tail_fragment lang) (last am)])"
proof -
  have "Suc 0 + length (fragments tf) \<le> length am" using assms(1) by simp
  note z = add_fragments_zip[OF this]
  have ne: "am \<noteq> []" using assms(1) by auto
  show ?thesis
    using assms ne
    by (simp add: create_syncmap_try_def getitem_def getlast_def Let_def z entry_def
        head_fragment_def tail_fragment_def)
qed

lemma create_syncmap_try_stretch:
  assumes "length am = length (fragments tf) + 2"
    and "os_file_head_tail_format (task_configuration t) = Some STRETCH"
  shows "\<exists>am'. stretch am (am ! 0) (last am) = Inr am' \<and> length am' = length am
           \<and> create_syncmap_try t tf am = Inr (map2 entry (fragments tf) (drop 1 am'))"
proof -
  have "2 \<le> length am" using assms(1) by simp
  from stretch_ok[OF this, of "am ! 0" "last am"] obtain am' where
    s: "stretch am (am ! 0) (last am) = Inr am'" and l: "length am' = length am" by blast
  have "Suc 0 + length (fragments tf) \<le> length am'" using assms(1) l by simp
  note z = add_fragments_zip[OF this, of "[]"]
  have ne: "am \<noteq> []" using assms(1) by auto
  have "create_syncmap_try t tf am = Inr (map2 entry (fragments tf) (drop 1 am'))"
    using assms ne s z
    by (simp add: create_syncmap_try_def getitem_def getlast_def Let_def)
  with s l show ?thesis by blast
qed

text \<open>
  Claim C6. For a task with a text file: an adjusted map with two elements more than the
  text file has fragments is accepted, and the sync map stored in the task has two entries
  more than there are fragments when the head/tail format is \<open>ADD\<close>, and as many entries
  as fragments otherwise; an adjusted map of any other length is refused, and the task is
  left as it was.
\<close>

theorem create_syncmap_count:
  assumes "text_file t = Some tf"
  shows "(length adjusted_map = length (fragments tf) + 2 \<longrightarrow>
            (\<exists>sm. create_syncmap t adjusted_map = Inr (True, t\<lparr>sync_map := Some sm\<rparr>)
               \<and> length sm = length (fragments tf)
                   + (if os_file_head_tail_format (task_configuration t) = Some ADD then 2 else 0)))
         \<and> (length adjusted_map \<noteq> length (fragments tf) + 2 \<longrightarrow>
              create_syncmap t adjusted_map = Inr (False, t))"
proof (intro conjI impI)
  assume len: "length adjusted_map = length (fragments tf) + 2"
  let ?fmt = "os_file_head_tail_format (task_configuration t)"
  have l2: "Suc (length (fragments tf)) \<le> length adjusted_map" using len by simp
  consider (add) "?fmt = Some ADD" | (stretch) "?fmt = Some STRETCH"
    | (other) "?fmt \<noteq> Some ADD" "?fmt \<noteq> Some STRETCH" by blast
  then show "\<exists>sm. create_syncmap t adjusted_map = Inr (True, t\<lparr>sync_map := Some sm\<rparr>)
               \<and> length sm = length (fragments tf) + (if ?fmt = Some ADD then 2 else 0)"
  proof cases
    case add
    from create_syncmap_try_add[OF len add] obtain lang where
      r: "create_syncmap_try t tf adjusted_map =
           Inr ([entry (head_fragment lang) (adjusted_map ! 0)]
                @ map2 entry (fragments tf) (drop 1 adjusted_map)
                @ [entry (tail_fragment lang) (last adjusted_map)])" by blast
    show ?thesis
      by (rule exI[of _ "[entry (head_fragment lang) (adjusted_map ! 0)]
                @ map2 entry (fragments tf) (drop 1 adjusted_map)
                @ [entry (tail_fragment lang) (last adjusted_map)]"])
         (use assms len add l2 r in \<open>simp add: create_syncmap_def\<close>)
  next
    case stretch
    from create_syncmap_try_stretch[OF len stretch] obtain am' where
      l: "length am' = length adjusted_map" and
      r: "create_syncmap_try t tf adjusted_map = Inr (map2 entry (fragments tf) (drop 1 am'))"
      by blast
    show ?thesis
      by (rule exI[of _ "map2 entry (fragments tf) (drop 1 am')"])
         (use assms len stretch l2 l r in \<open>simp add: create_syncmap_def\<close>)
  next
    case other
    note r = create_syncmap_try_other[OF len other]
    show ?thesis
      by (rule exI[of _ "map2 entry (fragments tf) (drop 1 adjusted_map)"])
         (use assms len other l2 r in \<open>simp add: create_syncmap_def\<close>)
  qed
next
  assume "length adjusted_map \<noteq> length (fragments tf) + 2"
  then show "create_syncmap t adjusted_map = Inr (False, t)"
    using assms by (simp add: create_syncmap_def)
qed

text \<open>The theorem on the task of three fragments with format \<open>ADD\<close>: a map of five
  intervals gives five entries, a map of four intervals is refused.\<close>

theorem create_syncmap_count_witness:
  "text_file (example_task\<lparr>task_configuration :=
        example_configuration\<lparr>os_file_head_tail_format := Some ADD\<rparr>\<rparr>)
     = Some \<lparr>fragments = example_fragments\<rparr>
   \<and> length [(0, 0, None, None), (0, 1, Some ''f1'', Some ''aa''), (1, 2, Some ''f2'', Some ''bb''),
              (2, 3, Some ''f3'', Some ''cc''), (3, 3, None, None) :: interval]
       = length (fragments \<lparr>fragments = example_fragments\<rparr>) + 2
   \<and> (\<exists>sm. create_syncmap (example_task\<lparr>task_configuration :=
                example_configuration\<lparr>os_file_head_tail_format := Some ADD\<rparr>\<rparr>)
             [(0, 0, None, None), (0, 1, Some ''f1'', Some ''aa''), (1, 2, Some ''f2'', Some ''bb''),
              (2, 3, Some ''f3'', Some ''cc''), (3, 3, None, None)]
           = Inr (True, example_task\<lparr>task_configuration :=
                example_configuration\<lparr>os_file_head_tail_format := Some ADD\<rparr>,
                sync_map := Some sm\<rparr>)
         \<and> length sm = 5)
   \<and> length [(0, 0, None, None), (0, 1, Some ''f1'', Some ''aa''), (1, 2, Some ''f2'', Some ''bb''),
              (2, 3, None, None) :: interval]
       \<noteq> length (fragments \<lparr>fragments = example_fragments\<rparr>) + 2
   \<and> create_syncmap (example_task\<lparr>task_configuration :=
          example_configuration\<lparr>os_file_head_tail_format := Some ADD\<rparr>\<rparr>)
        [(0, 0, None, None), (0, 1, Some ''f1'', Some ''aa''), (1, 2, Some ''f2'', Some ''bb''),
         (2, 3, None, None)]
      = Inr (False, example_task\<lparr>task_configuration :=
          example_configuration\<lparr>os_file_head_tail_format := Some ADD\<rparr>\<rparr>)"
  using create_syncmap_count
    [of "example_task\<lparr>task_configuration :=
           example_configuration\<lparr>os_file_head_tail_format := Some ADD\<rparr>\<rparr>"
        "\<lparr>fragments = example_fragments\<rparr>"
        "[(0, 0, None, None), (0, 1, Some ''f1'', Some ''aa''), (1, 2, Some ''f2'', Some ''bb''),
          (2, 3, Some ''f3'', Some ''cc''), (3, 3, None, None)]"]
    create_syncmap_count
    [of "example_task\<lparr>task_configuration :=
           example_configuration\<lparr>os_file_head_tail_format := Some ADD\<rparr>\<rparr>"
        "\<lparr>fragments = example_fragments\<rparr>"
        "[(0, 0, None, None), (0, 1, Some ''f1'', Some ''aa''), (1, 2, Some ''f2'', Some ''bb''),
          (2, 3, None, None)]"]
  by (simp add: example_task_def example_fragments_def example_configuration_def
      eval_nat_numeral)

text \<open>
  Claim C7. With head/tail format \<open>STRETCH\<close> an accepted adjusted map gives a sync map with
  exactly the text fragments, in order, and no entry for the head or the tail. The first
  fragment starts where the head interval starts and the last fragment ends where the tail
  interval ends; every other start and end is the one of the fragment's interval in the
  adjusted map. When the adjusted map is the map \<open>_translate_text_map\<close> returned, the head
  starts at 0 and the tail ends at the length of the full audio.
\<close>

theorem create_syncmap_stretch:
  assumes "text_file t = Some tf"
    and "length adjusted_map = length (fragments tf) + 2"
    and "os_file_head_tail_format (task_configuration t) = Some STRETCH"
  shows "\<exists>sm. create_syncmap t adjusted_map = Inr (True, t\<lparr>sync_map := Some sm\<rparr>)
           \<and> length sm = length (fragments tf)
           \<and> (\<forall>k < length (fragments tf).
                 text_fragment (sm ! k) = fragments tf ! k
                 \<and> begin_time (sm ! k)
                     = (if k = 0 then el0 (adjusted_map ! 0) else el0 (adjusted_map ! Suc k))
                 \<and> end_time (sm ! k)
                     = (if Suc k = length (fragments tf) then el1 (last adjusted_map)
                        else el1 (adjusted_map ! Suc k)))
           \<and> (\<forall>c cfg text_map L.
                 translate_text_map c cfg text_map L = Some adjusted_map \<longrightarrow>
                 el0 (adjusted_map ! 0) = 0 \<and> el1 (last adjusted_map) = L)"
proof -
  let ?n = "length (fragments tf)"
  have two: "2 \<le> length adjusted_map" using assms(2) by simp
  from create_syncmap_try_stretch[OF assms(2,3)] obtain am' where
    s: "stretch adjusted_map (adjusted_map ! 0) (last adjusted_map) = Inr am'"
    and l: "length am' = length adjusted_map"
    and r: "create_syncmap_try t tf adjusted_map = Inr (map2 entry (fragments tf) (drop 1 am'))"
    by blast
  from stretch_ok[OF two, of "adjusted_map ! 0" "last adjusted_map"] s
  have st: "\<forall>j. 1 \<le> j \<and> j \<le> length adjusted_map - 2 \<longrightarrow>
                 el0 (am' ! j) = (if j = 1 then el0 (adjusted_map ! 0) else el0 (adjusted_map ! j))
                 \<and> el1 (am' ! j) = (if j = length adjusted_map - 2 then el1 (last adjusted_map)
                                     else el1 (adjusted_map ! j))"
    by auto
  let ?sm = "map2 entry (fragments tf) (drop 1 am')"
  have res: "create_syncmap t adjusted_map = Inr (True, t\<lparr>sync_map := Some ?sm\<rparr>)"
    using assms r by (simp add: create_syncmap_def)
  have len: "length ?sm = ?n" using l assms(2) by simp
  have nth: "\<forall>k < ?n.
                 text_fragment (?sm ! k) = fragments tf ! k
                 \<and> begin_time (?sm ! k)
                     = (if k = 0 then el0 (adjusted_map ! 0) else el0 (adjusted_map ! Suc k))
                 \<and> end_time (?sm ! k)
                     = (if Suc k = ?n then el1 (last adjusted_map)
                        else el1 (adjusted_map ! Suc k))"
  proof (intro allI impI)
    fix k assume k: "k < ?n"
    then have j: "1 \<le> Suc k \<and> Suc k \<le> length adjusted_map - 2" using assms(2) by simp
    have e: "?sm ! k = entry (fragments tf ! k) (am' ! Suc k)"
      using k l assms(2) by simp
    from st j have
      "el0 (am' ! Suc k) = (if Suc k = 1 then el0 (adjusted_map ! 0) else el0 (adjusted_map ! Suc k))"
      "el1 (am' ! Suc k) = (if Suc k = length adjusted_map - 2 then el1 (last adjusted_map)
                             else el1 (adjusted_map ! Suc k))"
      by blast+
    then show "text_fragment (?sm ! k) = fragments tf ! k
                 \<and> begin_time (?sm ! k)
                     = (if k = 0 then el0 (adjusted_map ! 0) else el0 (adjusted_map ! Suc k))
                 \<and> end_time (?sm ! k)
                     = (if Suc k = ?n then el1 (last adjusted_map)
                        else el1 (adjusted_map ! Suc k))"
      unfolding e using assms(2) by (simp add: entry_def)
  qed
  have "\<forall>c cfg text_map L.
                 translate_text_map c cfg text_map L = Some adjusted_map \<longrightarrow>
                 el0 (adjusted_map ! 0) = 0 \<and> el1 (last adjusted_map) = L"
    using translate_text_map_ends by blast
  with res len nth show ?thesis by blast
qed

text \<open>The theorem on the task of three fragments, with a head of one second and a tail of
  two: the first fragment starts at 0 and the last one ends at 6.\<close>

theorem create_syncmap_stretch_witness:
  "text_file (example_task\<lparr>task_configuration :=
        example_configuration\<lparr>os_file_head_tail_format := Some STRETCH\<rparr>\<rparr>)
     = Some \<lparr>fragments = example_fragments\<rparr>
   \<and> os_file_head_tail_format (task_configuration (example_task\<lparr>task_configuration :=
        example_configuration\<lparr>os_file_head_tail_format := Some STRETCH\<rparr>\<rparr>)) = Some STRETCH
   \<and> create_syncmap (example_task\<lparr>task_configuration :=
          example_configuration\<lparr>os_file_head_tail_format := Some STRETCH\<rparr>\<rparr>)
        [(0, 1, None, None), (1, 2, Some ''f1'', Some ''aa''), (2, 3, Some ''f2'', Some ''bb''),
         (3, 4, Some ''f3'', Some ''cc''), (4, 6, None, None)]
      = Inr (True, example_task\<lparr>task_configuration :=
          example_configuration\<lparr>os_file_head_tail_format := Some STRETCH\<rparr>,
          sync_map := Some [entry (example_fragments ! 0) (0, 2, None, None),
                            entry (example_fragments ! 1) (2, 3, None, None),
                            entry (example_fragments ! 2) (3, 6, None, None)]\<rparr>)"
  using create_syncmap_stretch
    [of "example_task\<lparr>task_configuration :=
           example_configuration\<lparr>os_file_head_tail_format := Some STRETCH\<rparr>\<rparr>"
        "\<lparr>fragments = example_fragments\<rparr>"
        "[(0, 1, None, None), (1, 2, Some ''f1'', Some ''aa''), (2, 3, Some ''f2'', Some ''bb''),
          (3, 4, Some ''f3'', Some ''cc''), (4, 6, None, None)]"]
  by (simp add: example_task_def example_fragments_def example_configuration_def
      create_syncmap_def create_syncmap_try_def stretch_def getitem_def getlast_def
      entry_def el0_def el1_def Let_def)

section \<open>Monotone projection\<close>














section \<open>The run of \<open>execute\<close>\<close>

lemma convert_cases:
  "convert c t w = ((r, h, p), w') \<Longrightarrow>
   (mkstemp c w = None \<and> \<not> r \<and> h = None \<and> p = None \<and> w' = w)
   \<or> (\<exists>h0 p0. mkstemp c w = Some (h0, p0) \<and> h = Some h0 \<and> p = Some p0
        \<and> r = ffmpeg_convert c (audio_file_path_absolute t) p0
        \<and> w' = w\<lparr>open_handlers := insert h0 (open_handlers w), files := insert p0 (files w)\<rparr>)"
  by (auto simp: convert_def os_mkstemp_def split: option.splits if_splits)

lemma execute_True_D:
  assumes "execute c self w = Inr (True, self', w')"
  shows "\<exists>tf h0 p0 w0 m L t2 h3 p3 anchors w3 wave_map text_map translated adjusted w7 t8.
           text_file (task self) = Some tf \<and> fragments tf \<noteq> []
           \<and> convert c (task self) w = ((True, h0, p0), w0)
           \<and> extract_mfcc c p0 = Some (m, L)
           \<and> cut_head_tail c (task self) p0 = (True, t2)
           \<and> synthesize c t2 w0 = ((True, h3, p3, Some anchors), w3)
           \<and> align_waves c p0 p3 = Some wave_map
           \<and> align_text wave_map anchors = Some text_map
           \<and> translate_text_map c (task_configuration t2) text_map L = Some translated
           \<and> adjust_boundaries c (task_configuration t2) translated m L w3 = (Some adjusted, w7)
           \<and> create_syncmap t2 adjusted = Inr (True, t8)
           \<and> (self', w') = cleanup (self\<lparr>cleanup_info := [(h0, p0), (h3, p3)], task := t8\<rparr>) w7"
  using assms unfolding execute_def Let_def
  by (auto split: option.splits if_splits prod.splits sum.splits)


lemma cut_head_tail_frame:
  assumes "cut_head_tail c t p = (r, t')"
  shows "sync_map t' = sync_map t \<and> text_file t' = text_file t \<and> audio_file t' = audio_file t
         \<and> audio_file_path_absolute t' = audio_file_path_absolute t
         \<and> os_file_head_tail_format (task_configuration t')
             = os_file_head_tail_format (task_configuration t)
         \<and> adjust_boundary_algorithm (task_configuration t')
             = adjust_boundary_algorithm (task_configuration t)"
  using assms unfolding cut_head_tail_def Let_def
  by (auto split: option.splits if_splits)

lemma cut_head_tail_snd [simp]:
  "sync_map (snd (cut_head_tail c t p)) = sync_map t"
  "text_file (snd (cut_head_tail c t p)) = text_file t"
  "audio_file (snd (cut_head_tail c t p)) = audio_file t"
  "os_file_head_tail_format (task_configuration (snd (cut_head_tail c t p)))
     = os_file_head_tail_format (task_configuration t)"
  "adjust_boundary_algorithm (task_configuration (snd (cut_head_tail c t p)))
     = adjust_boundary_algorithm (task_configuration t)"
  using cut_head_tail_frame[of c t p "fst (cut_head_tail c t p)" "snd (cut_head_tail c t p)"]
  by simp_all

lemma create_syncmap_D:
  "create_syncmap t am = Inr x \<Longrightarrow>
   (fst x \<and> (\<exists>tf sm. text_file t = Some tf \<and> length am = length (fragments tf) + 2
                \<and> create_syncmap_try t tf am = Inr sm \<and> snd x = t\<lparr>sync_map := Some sm\<rparr>))
   \<or> (\<not> fst x \<and> snd x = t)"
  by (auto simp: create_syncmap_def split: option.splits if_splits sum.splits)

lemma synthesize_anchors:
  "synthesize c t w = ((True, h, p, an), w') \<Longrightarrow> an \<noteq> None"
  by (auto simp: synthesize_def split: sum.splits option.splits prod.splits) metis

lemma adjust_boundaries_world:
  "open_handlers (snd (adjust_boundaries c cfg tm m L w)) = open_handlers w
   \<and> files (snd (adjust_boundaries c cfg tm m L w)) = files w"
  by (auto simp: adjust_boundaries_def Let_def split: option.splits)

lemma create_syncmap_returns:
  "text_file t = Some tf \<Longrightarrow> \<exists>x. create_syncmap t am = Inr x"
  by (auto simp: create_syncmap_def split: sum.splits)

lemma execute_shape:
  assumes pre: "audio_file (task self) = Some af" "audio_length af = Some len" "\<not> len \<le> 0"
    "text_file (task self) = Some tf" "fragments tf \<noteq> []"
  shows "\<exists>r0 h0 p0 w0. convert c (task self) w = ((r0, h0, p0), w0) \<and>
     ((\<not> (r0 \<and> extract_mfcc c p0 \<noteq> None \<and> fst (cut_head_tail c (task self) p0))
        \<and> (\<exists>s. execute c self w = Inr (False, cleanup s w0) \<and> cleanup_info s = [(h0, p0)]
              \<and> sync_map (task s) = sync_map (task self)
              \<and> (r0 \<and> extract_mfcc c p0 \<noteq> None \<longrightarrow>
                    task_configuration (task s)
                      = task_configuration (snd (cut_head_tail c (task self) p0)))))
      \<or> (r0 \<and> extract_mfcc c p0 \<noteq> None \<and> fst (cut_head_tail c (task self) p0)
        \<and> (\<exists>r3 h3 p3 an w3 r s w7.
              synthesize c (snd (cut_head_tail c (task self) p0)) w0 = ((r3, h3, p3, an), w3)
              \<and> execute c self w = Inr (r, cleanup s w7)
              \<and> cleanup_info s = [(h0, p0), (h3, p3)]
              \<and> open_handlers w7 = open_handlers w3 \<and> files w7 = files w3
              \<and> (\<not> r \<longrightarrow> sync_map (task s) = sync_map (task self))
              \<and> task_configuration (task s)
                    = task_configuration (snd (cut_head_tail c (task self) p0)))))"
proof -
  obtain r0 h0 p0 w0 where conv: "convert c (task self) w = ((r0, h0, p0), w0)"
    by (cases "convert c (task self) w") auto
  obtain r2 t2 where cut: "cut_head_tail c (task self) p0 = (r2, t2)"
    by (cases "cut_head_tail c (task self) p0") auto
  have t2: "sync_map t2 = sync_map (task self)" "text_file t2 = Some tf"
    using cut_head_tail_frame[OF cut] pre by simp_all
  note ex = execute_def Let_def pre conv
  show ?thesis
  proof (cases "r0 \<and> extract_mfcc c p0 \<noteq> None \<and> r2")
    case False
    have "\<exists>s. execute c self w = Inr (False, cleanup s w0) \<and> cleanup_info s = [(h0, p0)]
              \<and> sync_map (task s) = sync_map (task self)
              \<and> (r0 \<and> extract_mfcc c p0 \<noteq> None \<longrightarrow>
                    task_configuration (task s) = task_configuration t2)"
    proof (cases r0)
      case r0: False
      show ?thesis
        by (rule exI[of _ "self\<lparr>cleanup_info := [(h0, p0)]\<rparr>"]) (simp add: ex r0)
    next
      case r0: True
      show ?thesis
      proof (cases "extract_mfcc c p0")
        case None
        show ?thesis
          by (rule exI[of _ "self\<lparr>cleanup_info := [(h0, p0)]\<rparr>"]) (simp add: ex r0 None)
      next
        case (Some ml)
        with False r0 have r2: "\<not> r2" by simp
        obtain m L where ml: "ml = (m, L)" by (cases ml) auto
        show ?thesis
          by (rule exI[of _ "self\<lparr>cleanup_info := [(h0, p0)], task := t2\<rparr>"])
             (simp add: ex r0 Some ml cut r2 t2)
      qed
    qed
    with False conv cut show ?thesis by auto
  next
    case True
    then have r0: r0 and r2: r2 by simp_all
    from True obtain m L where mfcc: "extract_mfcc c p0 = Some (m, L)" by auto
    obtain r3 h3 p3 an w3 where syn: "synthesize c t2 w0 = ((r3, h3, p3, an), w3)"
      by (cases "synthesize c t2 w0") auto
    note ex2 = ex r0 r2 mfcc cut syn
    let ?s = "self\<lparr>task := t2, cleanup_info := [(h0, p0), (h3, p3)]\<rparr>"
    have "\<exists>r s w7. execute c self w = Inr (r, cleanup s w7)
              \<and> cleanup_info s = [(h0, p0), (h3, p3)]
              \<and> open_handlers w7 = open_handlers w3 \<and> files w7 = files w3
              \<and> (\<not> r \<longrightarrow> sync_map (task s) = sync_map (task self))
              \<and> task_configuration (task s) = task_configuration t2"
    proof (cases r3)
      case r3: False
      have "execute c self w = Inr (False, cleanup ?s w3)" by (simp add: ex2 r3)
      then show ?thesis using t2 by (intro exI[of _ False] exI[of _ ?s] exI[of _ w3]) simp
    next
      case r3: True
      from synthesize_anchors[of c t2 w0 h3 p3 an w3] syn r3 obtain anchors
        where an: "an = Some anchors" by (cases an) auto
      show ?thesis
      proof (cases "align_waves c p0 p3")
        case None
        have "execute c self w = Inr (False, cleanup ?s w3)" by (simp add: ex2 r3 None)
        then show ?thesis using t2 by (intro exI[of _ False] exI[of _ ?s] exI[of _ w3]) simp
      next
        case wm: (Some wave_map)
        show ?thesis
        proof (cases "align_text wave_map anchors")
          case None
          have "execute c self w = Inr (False, cleanup ?s w3)" by (simp add: ex2 r3 wm an None)
          then show ?thesis using t2 by (intro exI[of _ False] exI[of _ ?s] exI[of _ w3]) simp
        next
          case tm: (Some text_map)
          show ?thesis
          proof (cases "translate_text_map c (task_configuration t2) text_map L")
            case None
            have "execute c self w = Inr (False, cleanup ?s w3)"
              by (simp add: ex2 r3 wm an tm None)
            then show ?thesis using t2 by (intro exI[of _ False] exI[of _ ?s] exI[of _ w3]) simp
          next
            case tr: (Some translated)
            obtain adj w7 where
              ab: "adjust_boundaries c (task_configuration t2) translated m L w3 = (adj, w7)"
              by (cases "adjust_boundaries c (task_configuration t2) translated m L w3") auto
            have w7: "open_handlers w7 = open_handlers w3" "files w7 = files w3"
              using adjust_boundaries_world[of c "task_configuration t2" translated m L w3] ab
              by simp_all
            show ?thesis
            proof (cases adj)
              case None
              have "execute c self w = Inr (False, cleanup ?s w7)"
                by (simp add: ex2 r3 wm an tm tr ab None)
              then show ?thesis using t2 w7
                by (intro exI[of _ False] exI[of _ ?s] exI[of _ w7]) simp
            next
              case am: (Some adjusted_map)
              from create_syncmap_returns[OF t2(2)] obtain x
                where cs: "create_syncmap t2 adjusted_map = Inr x" by blast
              obtain r8 t8 where x: "x = (r8, t8)" by (cases x) auto
              let ?s8 = "self\<lparr>cleanup_info := [(h0, p0), (h3, p3)], task := t8\<rparr>"
              have e: "execute c self w = Inr (r8, cleanup ?s8 w7)"
                by (simp add: ex2 r3 wm an tm tr ab am cs x)
              from create_syncmap_D[OF cs] x
              have "(\<not> r8 \<longrightarrow> t8 = t2) \<and> task_configuration t8 = task_configuration t2"
                by auto
              with e t2 w7 show ?thesis
                by (intro exI[of _ r8] exI[of _ ?s8] exI[of _ w7]) auto
            qed
          qed
        qed
      qed
    qed
    with True conv cut syn show ?thesis by auto
  qed
qed


lemma execute_precheck_fails:
  assumes "\<not> (\<exists>af len tf. audio_file (task self) = Some af \<and> audio_length af = Some len
              \<and> 0 < len \<and> text_file (task self) = Some tf \<and> fragments tf \<noteq> [])"
  shows "execute c self w = Inr (False, self, w)"
  using assms unfolding execute_def
  by (auto split: option.splits simp: not_le)

lemma close_step:
  "open_handlers (case handler of None \<Rightarrow> w
      | Some h \<Rightarrow> (case os_close w h of Inl e \<Rightarrow> w | Inr w' \<Rightarrow> w'))
     = open_handlers w - set_option handler"
  "files (case handler of None \<Rightarrow> w
      | Some h \<Rightarrow> (case os_close w h of Inl e \<Rightarrow> w | Inr w' \<Rightarrow> w')) = files w"
  by (cases handler; simp add: os_close_def)+

lemma remove_step:
  "open_handlers (case path of None \<Rightarrow> w
      | Some p \<Rightarrow> (case os_remove w p of Inl e \<Rightarrow> w | Inr w' \<Rightarrow> w')) = open_handlers w"
  "files (case path of None \<Rightarrow> w
      | Some p \<Rightarrow> (case os_remove w p of Inl e \<Rightarrow> w | Inr w' \<Rightarrow> w'))
     = files w - set_option path"
  by (cases path; simp add: os_remove_def)+

lemma cleanup_loop_handlers:
  "open_handlers (cleanup_loop ci w) = open_handlers w - (\<Union>x \<in> set ci. set_option (fst x))"
proof (induction ci arbitrary: w)
  case Nil
  show ?case by simp
next
  case (Cons a ci)
  obtain handler path where a: "a = (handler, path)" by (cases a) auto
  show ?case
    unfolding a cleanup_loop.simps Let_def Cons.IH remove_step close_step
    by auto
qed

lemma cleanup_loop_files:
  "files (cleanup_loop ci w) = files w - (\<Union>x \<in> set ci. set_option (snd x))"
proof (induction ci arbitrary: w)
  case Nil
  show ?case by simp
next
  case (Cons a ci)
  obtain handler path where a: "a = (handler, path)" by (cases a) auto
  show ?case
    unfolding a cleanup_loop.simps Let_def Cons.IH remove_step close_step
    by auto
qed

lemma cleanup_result:
  "cleanup_info (fst (cleanup s w)) = []"
  "task (fst (cleanup s w)) = task s"
  "open_handlers (snd (cleanup s w))
     = open_handlers w - (\<Union>x \<in> set (cleanup_info s). set_option (fst x))"
  "files (snd (cleanup s w)) = files w - (\<Union>x \<in> set (cleanup_info s). set_option (snd x))"
  by (simp_all add: cleanup_def cleanup_loop_handlers cleanup_loop_files)

lemma synthesize_cases:
  "synthesize c t w = ((r, h, p, an), w') \<Longrightarrow>
   (mkstemp c w = None \<and> \<not> r \<and> h = None \<and> p = None \<and> w' = w)
   \<or> (\<exists>h3 p3. mkstemp c w = Some (h3, p3) \<and> h = Some h3 \<and> p = Some p3
        \<and> w' = w\<lparr>open_handlers := insert h3 (open_handlers w), files := insert p3 (files w)\<rparr>)"
  by (auto simp: synthesize_def os_mkstemp_def split: option.splits if_splits)


lemma execute_returns:
  "\<exists>r self' w'. execute c self w = Inr (r, self', w')
     \<and> (\<not> r \<longrightarrow> sync_map (task self') = sync_map (task self))"
proof (cases "\<exists>af len tf. audio_file (task self) = Some af \<and> audio_length af = Some len
              \<and> 0 < len \<and> text_file (task self) = Some tf \<and> fragments tf \<noteq> []")
  case False
  have "execute c self w = Inr (False, self, w)"
    by (rule execute_precheck_fails[OF False])
  then show ?thesis by (intro exI[of _ False] exI[of _ self] exI[of _ w]) simp
next
  case True
  then obtain af len tf where pre: "audio_file (task self) = Some af" "audio_length af = Some len"
    "\<not> len \<le> 0" "text_file (task self) = Some tf" "fragments tf \<noteq> []" by auto
  from execute_shape[OF pre, of c w] obtain r s w'' where
    "execute c self w = Inr (r, cleanup s w'')"
    "\<not> r \<longrightarrow> sync_map (task s) = sync_map (task self)" by blast
  then show ?thesis
    by (intro exI[of _ r] exI[of _ "fst (cleanup s w'')"] exI[of _ "snd (cleanup s w'')"])
       (simp add: cleanup_result)
qed

text \<open>
  Claim C1. \<open>execute\<close> always returns, with \<open>False\<close> or with \<open>True\<close>. When it returns \<open>False\<close>
  the sync map of the task is the one the task had before. When it returns \<open>True\<close> every
  stage has succeeded, and the sync map of the task is the one that the body of
  \<open>_create_syncmap\<close> built from the adjusted map.
\<close>

theorem execute_sync_map:
  "(\<exists>self' w'. execute c self w = Inr (False, self', w')
      \<and> sync_map (task self') = sync_map (task self))
   \<or> (\<exists>self' w' tf h0 p0 w0 m L t2 h3 p3 anchors w3 wave_map text_map translated adjusted w7 sm.
        execute c self w = Inr (True, self', w')
        \<and> text_file (task self) = Some tf
        \<and> convert c (task self) w = ((True, h0, p0), w0)
        \<and> extract_mfcc c p0 = Some (m, L)
        \<and> cut_head_tail c (task self) p0 = (True, t2)
        \<and> synthesize c t2 w0 = ((True, h3, p3, Some anchors), w3)
        \<and> align_waves c p0 p3 = Some wave_map
        \<and> align_text wave_map anchors = Some text_map
        \<and> translate_text_map c (task_configuration t2) text_map L = Some translated
        \<and> adjust_boundaries c (task_configuration t2) translated m L w3 = (Some adjusted, w7)
        \<and> length adjusted = length (fragments tf) + 2
        \<and> create_syncmap_try t2 tf adjusted = Inr sm
        \<and> sync_map (task self') = Some sm)"
proof -
  from execute_returns[of c self w] obtain r self' w' where
    e: "execute c self w = Inr (r, self', w')"
    and f: "\<not> r \<longrightarrow> sync_map (task self') = sync_map (task self)" by blast
  show ?thesis
  proof (cases r)
    case False
    with e f show ?thesis by (intro disjI1 exI[of _ self'] exI[of _ w']) simp
  next
    case True
    with e have e': "execute c self w = Inr (True, self', w')" by simp
    from execute_True_D[OF e'] obtain tf h0 p0 w0 m L t2 h3 p3 anchors w3 wave_map text_map
      translated adjusted w7 t8 where
      d: "text_file (task self) = Some tf"
        "convert c (task self) w = ((True, h0, p0), w0)"
        "extract_mfcc c p0 = Some (m, L)"
        "cut_head_tail c (task self) p0 = (True, t2)"
        "synthesize c t2 w0 = ((True, h3, p3, Some anchors), w3)"
        "align_waves c p0 p3 = Some wave_map"
        "align_text wave_map anchors = Some text_map"
        "translate_text_map c (task_configuration t2) text_map L = Some translated"
        "adjust_boundaries c (task_configuration t2) translated m L w3 = (Some adjusted, w7)"
      and cs: "create_syncmap t2 adjusted = Inr (True, t8)"
      and fin: "(self', w') = cleanup (self\<lparr>cleanup_info := [(h0, p0), (h3, p3)], task := t8\<rparr>) w7"
      by blast
    from cut_head_tail_frame[OF d(4)] d(1) have tf2: "text_file t2 = Some tf" by simp
    from create_syncmap_D[OF cs] tf2 obtain sm where
      sm: "length adjusted = length (fragments tf) + 2"
        "create_syncmap_try t2 tf adjusted = Inr sm" "t8 = t2\<lparr>sync_map := Some sm\<rparr>"
      by auto
    from fin have "self' = fst (cleanup (self\<lparr>cleanup_info := [(h0, p0), (h3, p3)], task := t8\<rparr>) w7)"
      by (metis fst_conv)
    then have res: "sync_map (task self') = Some sm" by (simp add: cleanup_result sm(3))
    show ?thesis
      by (rule disjI2, intro exI conjI)
         (rule e' d(1) d(2) d(3) d(4) d(5) d(6) d(7) d(8) d(9) sm(1) sm(2) res)+
  qed
qed

text \<open>Unfolding the run on the small task.\<close>

lemmas example_defs =
  example_collaborators_def example_task_def example_world_def example_configuration_def
  example_fragments_def example_anchors_def example_wave_map_def

lemmas stage_defs =
  execute_def convert_def os_mkstemp_def extract_mfcc_def cut_head_tail_def detect_head_def
  detect_tail_def synthesize_def align_waves_def align_text_def align_text_try_def argmin_def
  getitem_def getlast_def translate_text_map_def translate_step_def adjust_boundaries_def
  create_syncmap_def create_syncmap_try_def stretch_def cleanup_def os_close_def os_remove_def
  Let_def

text \<open>The small task runs to the end and gets its three entries; when the aligner raises,
  the run returns \<open>False\<close> and the task is as before.\<close>

theorem execute_sync_map_witness:
  "execute example_collaborators \<lparr>task = example_task, cleanup_info = []\<rparr> example_world
     = Inr (True,
            \<lparr>task = example_task\<lparr>sync_map := Some
                 [entry (example_fragments ! 0) (0, 1, None, None),
                  entry (example_fragments ! 1) (1, 2, None, None),
                  entry (example_fragments ! 2) (2, 3, None, None)]\<rparr>,
             cleanup_info = []\<rparr>,
            example_world)
   \<and> execute (example_collaborators\<lparr>dtw_computed_map := \<lambda>real_path synt_path. None\<rparr>)
       \<lparr>task = example_task, cleanup_info = []\<rparr> example_world
     = Inr (False, \<lparr>task = example_task, cleanup_info = []\<rparr>, example_world)"
  using execute_sync_map [of example_collaborators "\<lparr>task = example_task, cleanup_info = []\<rparr>"
      example_world]
  by (simp add: example_defs stage_defs entry_def el0_def el1_def) auto


text \<open>
  Claim C9. A run that passes the checks on the audio file and the text file returns with an
  empty \<open>cleanup_info\<close>. No descriptor is open and no file exists afterwards that was not
  open or did not exist before. The descriptor and the path that \<open>mkstemp\<close> returned to
  \<open>_convert\<close> are closed and removed, and so are the ones it returned to \<open>_synthesize\<close>
  when the run got that far, whatever stage failed afterwards.
\<close>

theorem execute_cleanup:
  assumes "audio_file (task self) = Some af" and "audio_length af = Some len" and "0 < len"
    and "text_file (task self) = Some tf" and "fragments tf \<noteq> []"
  shows "\<exists>r self' w'. execute c self w = Inr (r, self', w')
           \<and> cleanup_info self' = []
           \<and> open_handlers w' \<subseteq> open_handlers w \<and> files w' \<subseteq> files w
           \<and> (\<forall>h0 p0. mkstemp c w = Some (h0, p0) \<longrightarrow>
                 h0 \<notin> open_handlers w' \<and> p0 \<notin> files w'
                 \<and> (\<forall>h3 p3.
                       ffmpeg_convert c (audio_file_path_absolute (task self)) p0
                       \<and> extract_mfcc c (Some p0) \<noteq> None
                       \<and> fst (cut_head_tail c (task self) (Some p0))
                       \<and> mkstemp c (w\<lparr>open_handlers := insert h0 (open_handlers w),
                                        files := insert p0 (files w)\<rparr>) = Some (h3, p3)
                       \<longrightarrow> h3 \<notin> open_handlers w' \<and> p3 \<notin> files w'))"
proof -
  have pre: "audio_file (task self) = Some af" "audio_length af = Some len"
    "\<not> len \<le> 0" "text_file (task self) = Some tf" "fragments tf \<noteq> []"
    using assms by simp_all
  from execute_shape[OF pre, of c w] obtain r0 h0 p0 w0 where
    conv: "convert c (task self) w = ((r0, h0, p0), w0)" and
    sh: "(\<not> (r0 \<and> extract_mfcc c p0 \<noteq> None \<and> fst (cut_head_tail c (task self) p0))
        \<and> (\<exists>s. execute c self w = Inr (False, cleanup s w0) \<and> cleanup_info s = [(h0, p0)]
              \<and> sync_map (task s) = sync_map (task self)
              \<and> (r0 \<and> extract_mfcc c p0 \<noteq> None \<longrightarrow>
                    task_configuration (task s)
                      = task_configuration (snd (cut_head_tail c (task self) p0)))))
      \<or> (r0 \<and> extract_mfcc c p0 \<noteq> None \<and> fst (cut_head_tail c (task self) p0)
        \<and> (\<exists>r3 h3 p3 an w3 r s w7.
              synthesize c (snd (cut_head_tail c (task self) p0)) w0 = ((r3, h3, p3, an), w3)
              \<and> execute c self w = Inr (r, cleanup s w7)
              \<and> cleanup_info s = [(h0, p0), (h3, p3)]
              \<and> open_handlers w7 = open_handlers w3 \<and> files w7 = files w3
              \<and> (\<not> r \<longrightarrow> sync_map (task s) = sync_map (task self))))"
    by blast
  note cc = convert_cases[OF conv]
  from sh show ?thesis
  proof (elim disjE conjE exE)
    fix s
    assume early: "\<not> (r0 \<and> extract_mfcc c p0 \<noteq> None \<and> fst (cut_head_tail c (task self) p0))"
      and e: "execute c self w = Inr (False, cleanup s w0)" and ci: "cleanup_info s = [(h0, p0)]"
    show ?thesis
      by (intro exI[of _ False] exI[of _ "fst (cleanup s w0)"] exI[of _ "snd (cleanup s w0)"])
         (use cc early e ci in \<open>auto simp: cleanup_result\<close>)
  next
    fix r3 h3 p3 an w3 r s w7
    assume syn: "synthesize c (snd (cut_head_tail c (task self) p0)) w0 = ((r3, h3, p3, an), w3)"
      and e: "execute c self w = Inr (r, cleanup s w7)"
      and ci: "cleanup_info s = [(h0, p0), (h3, p3)]"
      and w7: "open_handlers w7 = open_handlers w3" "files w7 = files w3"
    note sc = synthesize_cases[OF syn]
    show ?thesis
      by (intro exI[of _ r] exI[of _ "fst (cleanup s w7)"] exI[of _ "snd (cleanup s w7)"])
         (use cc sc e ci w7 in \<open>auto simp: cleanup_result\<close>)
  qed
qed


lemma example_dtw_failure:
  "execute (example_collaborators\<lparr>dtw_computed_map := \<lambda>real_path synt_path. None\<rparr>)
       \<lparr>task = example_task, cleanup_info = []\<rparr> example_world
     = Inr (False, \<lparr>task = example_task, cleanup_info = []\<rparr>, example_world)"
  by (simp add: example_defs stage_defs) auto

text \<open>On the small task with an aligner that raises, both temporary files have been created
  when the run fails; the world after the run is the world before it.\<close>

theorem execute_cleanup_witness:
  "audio_file (task \<lparr>task = example_task, cleanup_info = []\<rparr>) = Some \<lparr>audio_length = Some 3\<rparr>
   \<and> audio_length \<lparr>audio_length = Some 3\<rparr> = Some 3 \<and> (0 :: real) < 3
   \<and> text_file (task \<lparr>task = example_task, cleanup_info = []\<rparr>)
       = Some \<lparr>fragments = example_fragments\<rparr>
   \<and> fragments \<lparr>fragments = example_fragments\<rparr> \<noteq> []
   \<and> mkstemp (example_collaborators\<lparr>dtw_computed_map := \<lambda>real_path synt_path. None\<rparr>)
         example_world = Some (3, ''/tmp/a.wav'')
   \<and> mkstemp (example_collaborators\<lparr>dtw_computed_map := \<lambda>real_path synt_path. None\<rparr>)
         (example_world\<lparr>open_handlers := insert 3 (open_handlers example_world),
                         files := insert ''/tmp/a.wav'' (files example_world)\<rparr>)
       = Some (4, ''/tmp/b.wav'')
   \<and> execute (example_collaborators\<lparr>dtw_computed_map := \<lambda>real_path synt_path. None\<rparr>)
       \<lparr>task = example_task, cleanup_info = []\<rparr> example_world
     = Inr (False, \<lparr>task = example_task, cleanup_info = []\<rparr>, example_world)"
proof -
  have h: "audio_file (task \<lparr>task = example_task, cleanup_info = []\<rparr>)
             = Some \<lparr>audio_length = Some 3\<rparr>"
    "audio_length \<lparr>audio_length = Some 3\<rparr> = Some 3" "(0 :: real) < 3"
    "text_file (task \<lparr>task = example_task, cleanup_info = []\<rparr>)
       = Some \<lparr>fragments = example_fragments\<rparr>"
    "fragments \<lparr>fragments = example_fragments\<rparr> \<noteq> []"
    by (simp_all add: example_task_def example_fragments_def)
  have m: "mkstemp (example_collaborators\<lparr>dtw_computed_map := \<lambda>real_path synt_path. None\<rparr>)
         example_world = Some (3, ''/tmp/a.wav'')"
    "mkstemp (example_collaborators\<lparr>dtw_computed_map := \<lambda>real_path synt_path. None\<rparr>)
         (example_world\<lparr>open_handlers := insert 3 (open_handlers example_world),
                         files := insert ''/tmp/a.wav'' (files example_world)\<rparr>)
       = Some (4, ''/tmp/b.wav'')"
    by (simp_all add: example_collaborators_def example_world_def)
  note t = execute_cleanup [OF h,
      of "example_collaborators\<lparr>dtw_computed_map := \<lambda>real_path synt_path. None\<rparr>" example_world]
  from t h m example_dtw_failure show ?thesis by blast
qed

text \<open>
  Claim C10. When neither a head length nor a process length is configured, at least one
  detection bound is set, the audio data can be loaded and the detector returns a head and a
  tail (0 where no bound of that side is set), \<open>_cut_head_tail\<close> stores \<open>max(0, head)\<close> as
  head length and \<open>max(0, audio_length - tail - head)\<close> as process length in the task
  configuration and changes nothing else of the task, whether or not the trimming that
  follows succeeds. The configuration is then a different one, and a run of \<open>execute\<close> that
  gets past the MFCC extraction leaves this configuration in the task.
\<close>

theorem cut_head_tail_sets_configuration:
  assumes "is_audio_file_head_length (task_configuration t) = None"
    and "is_audio_file_process_length (task_configuration t) = None"
    and "is_audio_file_detect_head_min (task_configuration t) \<noteq> None
         \<or> is_audio_file_detect_head_max (task_configuration t) \<noteq> None
         \<or> is_audio_file_detect_tail_min (task_configuration t) \<noteq> None
         \<or> is_audio_file_detect_tail_max (task_configuration t) \<noteq> None"
    and "audio_load_data c p = Some loaded_length"
    and "detect_head c (task_configuration t) = Some head"
    and "detect_tail c (task_configuration t) = Some tail"
  shows "snd (cut_head_tail c t p)
           = t\<lparr>task_configuration := (task_configuration t)
                 \<lparr>is_audio_file_head_length := Some (max 0 head),
                  is_audio_file_process_length := Some (max 0 (loaded_length - tail - head))\<rparr>\<rparr>
         \<and> task_configuration (snd (cut_head_tail c t p)) \<noteq> task_configuration t
         \<and> (\<forall>self w h0 w0 af len tf.
               task self = t \<and> audio_file t = Some af \<and> audio_length af = Some len \<and> 0 < len
               \<and> text_file t = Some tf \<and> fragments tf \<noteq> []
               \<and> convert c t w = ((True, h0, p), w0) \<and> extract_mfcc c p \<noteq> None
               \<longrightarrow> (\<exists>r self' w'. execute c self w = Inr (r, self', w')
                      \<and> task_configuration (task self')
                          = (task_configuration t)
                              \<lparr>is_audio_file_head_length := Some (max 0 head),
                               is_audio_file_process_length
                                 := Some (max 0 (loaded_length - tail - head))\<rparr>))"
proof -
  let ?cfg = "(task_configuration t)
                 \<lparr>is_audio_file_head_length := Some (max 0 head),
                  is_audio_file_process_length := Some (max 0 (loaded_length - tail - head))\<rparr>"
  have a: "snd (cut_head_tail c t p) = t\<lparr>task_configuration := ?cfg\<rparr>"
    using assms by (auto simp: cut_head_tail_def Let_def)
  have "is_audio_file_head_length ?cfg \<noteq> is_audio_file_head_length (task_configuration t)"
    using assms(1) by simp
  then have "?cfg \<noteq> task_configuration t" by (rule contrapos_nn) simp
  then have b: "task_configuration (snd (cut_head_tail c t p)) \<noteq> task_configuration t"
    by (simp add: a)
  have d: "\<forall>self w h0 w0 af len tf.
               task self = t \<and> audio_file t = Some af \<and> audio_length af = Some len \<and> 0 < len
               \<and> text_file t = Some tf \<and> fragments tf \<noteq> []
               \<and> convert c t w = ((True, h0, p), w0) \<and> extract_mfcc c p \<noteq> None
               \<longrightarrow> (\<exists>r self' w'. execute c self w = Inr (r, self', w')
                      \<and> task_configuration (task self') = ?cfg)"
  proof (intro allI impI, elim conjE)
    fix self :: ExecuteTask and w h0 w0 af len tf
    assume h: "task self = t" "audio_file t = Some af" "audio_length af = Some len" "0 < len"
      "text_file t = Some tf" "fragments tf \<noteq> []"
      "convert c t w = ((True, h0, p), w0)" "extract_mfcc c p \<noteq> None"
    have pre: "audio_file (task self) = Some af" "audio_length af = Some len"
      "\<not> len \<le> 0" "text_file (task self) = Some tf" "fragments tf \<noteq> []"
      using h by simp_all
    from execute_shape[OF pre, of c w] obtain r0 h0' p0 w0' where
      conv: "convert c (task self) w = ((r0, h0', p0), w0')" and
      sh: "(\<exists>s. execute c self w = Inr (False, cleanup s w0')
              \<and> (r0 \<and> extract_mfcc c p0 \<noteq> None \<longrightarrow>
                    task_configuration (task s)
                      = task_configuration (snd (cut_head_tail c (task self) p0))))
        \<or> (\<exists>r s w7. execute c self w = Inr (r, cleanup s w7)
              \<and> task_configuration (task s)
                    = task_configuration (snd (cut_head_tail c (task self) p0)))"
      by blast
    from conv h(1,7) have eq: "r0" "p0 = p" by simp_all
    from sh eq h(1,8)
    obtain r s w'' where e: "execute c self w = Inr (r, cleanup s w'')"
      and cfg: "task_configuration (task s) = task_configuration (snd (cut_head_tail c t p))"
      by blast
    show "\<exists>r self' w'. execute c self w = Inr (r, self', w')
                      \<and> task_configuration (task self') = ?cfg"
      by (intro exI[of _ r] exI[of _ "fst (cleanup s w'')"] exI[of _ "snd (cleanup s w'')"])
         (simp add: e cfg cleanup_result a)
  qed
  from a b d show ?thesis by blast
qed

text \<open>The small task with a lower bound for the head: the detector finds a head of one
  second in the three seconds of audio, the aligner sees the two seconds that remain, and
  the run leaves head length 1 and process length 2 in the configuration.\<close>

theorem cut_head_tail_sets_configuration_witness:
  "is_audio_file_head_length (example_configuration\<lparr>is_audio_file_detect_head_min := Some 0\<rparr>)
     = None
   \<and> is_audio_file_detect_head_min
        (example_configuration\<lparr>is_audio_file_detect_head_min := Some 0\<rparr>) \<noteq> None
   \<and> audio_load_data
        (example_collaborators\<lparr>dtw_computed_map :=
           \<lambda>real_path synt_path. Some [(0, 0), (1, 1), (2, 2)]\<rparr>) (Some ''/tmp/a.wav'') = Some 3
   \<and> detect_head
        (example_collaborators\<lparr>dtw_computed_map :=
           \<lambda>real_path synt_path. Some [(0, 0), (1, 1), (2, 2)]\<rparr>)
        (example_configuration\<lparr>is_audio_file_detect_head_min := Some 0\<rparr>) = Some 1
   \<and> detect_tail
        (example_collaborators\<lparr>dtw_computed_map :=
           \<lambda>real_path synt_path. Some [(0, 0), (1, 1), (2, 2)]\<rparr>)
        (example_configuration\<lparr>is_audio_file_detect_head_min := Some 0\<rparr>) = Some 0
   \<and> snd (cut_head_tail
         (example_collaborators\<lparr>dtw_computed_map :=
            \<lambda>real_path synt_path. Some [(0, 0), (1, 1), (2, 2)]\<rparr>)
         (example_task\<lparr>task_configuration :=
            example_configuration\<lparr>is_audio_file_detect_head_min := Some 0\<rparr>\<rparr>)
         (Some ''/tmp/a.wav''))
       = example_task\<lparr>task_configuration :=
            example_configuration\<lparr>is_audio_file_detect_head_min := Some 0,
              is_audio_file_head_length := Some 1, is_audio_file_process_length := Some 2\<rparr>\<rparr>
   \<and> execute
        (example_collaborators\<lparr>dtw_computed_map :=
           \<lambda>real_path synt_path. Some [(0, 0), (1, 1), (2, 2)]\<rparr>)
        \<lparr>task = example_task\<lparr>task_configuration :=
            example_configuration\<lparr>is_audio_file_detect_head_min := Some 0\<rparr>\<rparr>,
         cleanup_info = []\<rparr> example_world
       = Inr (True,
              \<lparr>task = example_task\<lparr>task_configuration :=
                   example_configuration\<lparr>is_audio_file_detect_head_min := Some 0,
                     is_audio_file_head_length := Some 1,
                     is_audio_file_process_length := Some 2\<rparr>,
                 sync_map := Some
                   [entry (example_fragments ! 0) (1, 2, None, None),
                    entry (example_fragments ! 1) (2, 3, None, None),
                    entry (example_fragments ! 2) (3, 3, None, None)]\<rparr>,
               cleanup_info = []\<rparr>,
              example_world)"
proof -
  let ?c = "example_collaborators\<lparr>dtw_computed_map :=
              \<lambda>real_path synt_path. Some [(0, 0), (1, 1), (2, 2)]\<rparr>"
  let ?cfg = "example_configuration\<lparr>is_audio_file_detect_head_min := Some 0\<rparr>"
  let ?t = "example_task\<lparr>task_configuration := ?cfg\<rparr>"
  have h: "is_audio_file_head_length (task_configuration ?t) = None"
    "is_audio_file_process_length (task_configuration ?t) = None"
    "is_audio_file_detect_head_min (task_configuration ?t) \<noteq> None
         \<or> is_audio_file_detect_head_max (task_configuration ?t) \<noteq> None
         \<or> is_audio_file_detect_tail_min (task_configuration ?t) \<noteq> None
         \<or> is_audio_file_detect_tail_max (task_configuration ?t) \<noteq> None"
    "audio_load_data ?c (Some ''/tmp/a.wav'') = Some 3"
    "detect_head ?c (task_configuration ?t) = Some 1"
    "detect_tail ?c (task_configuration ?t) = Some 0"
    by (simp_all add: example_defs detect_head_def detect_tail_def)
  have ev: "execute ?c \<lparr>task = ?t, cleanup_info = []\<rparr> example_world
       = Inr (True,
              \<lparr>task = example_task\<lparr>task_configuration :=
                   example_configuration\<lparr>is_audio_file_detect_head_min := Some 0,
                     is_audio_file_head_length := Some 1,
                     is_audio_file_process_length := Some 2\<rparr>,
                 sync_map := Some
                   [entry (example_fragments ! 0) (1, 2, None, None),
                    entry (example_fragments ! 1) (2, 3, None, None),
                    entry (example_fragments ! 2) (3, 3, None, None)]\<rparr>,
               cleanup_info = []\<rparr>,
              example_world)"
    by (simp add: example_defs stage_defs entry_def el0_def el1_def) auto
  note t = cut_head_tail_sets_configuration [OF h]
  from t h ev show ?thesis by (simp add: example_configuration_def)
qed

section \<open>Contiguity and coverage of the sync map\<close>



















end
